theory Spec2Isabelle
  imports Complex_Main "HOL-Library.Sublist" "HOL-Library.AList" "HOL-Library.Word"
begin

section \<open>Python string primitives\<close>

text \<open>
  A Python \<open>str\<close> is modelled as a \<open>string\<close> (a list of characters), so \<open>len\<close> is
  \<open>length\<close>, \<open>s[:n]\<close> is \<open>take n s\<close> and \<open>a + b\<close> is \<open>a @ b\<close>. The whitespace
  characters are the ones \<open>str.isspace\<close> accepts below code point 128.
\<close>

definition whitespace :: "char list" where
  "whitespace = [CHR 0x09, CHR 0x0A, CHR 0x0B, CHR 0x0C, CHR 0x0D,
                 CHR 0x1C, CHR 0x1D, CHR 0x1E, CHR 0x1F, CHR 0x20]"

definition isspace :: "char \<Rightarrow> bool" where
  "isspace c = (c \<in> set whitespace)"

text \<open>\<open>s.strip()\<close>\<close>

definition strip :: "string \<Rightarrow> string" where
  "strip s = rev (dropWhile isspace (rev (dropWhile isspace s)))"

text \<open>\<open>s.lstrip("/")\<close>\<close>

definition lstrip_slash :: "string \<Rightarrow> string" where
  "lstrip_slash s = dropWhile (\<lambda>c. c = CHR ''/'') s"

text \<open>\<open>s.lower()\<close> on the ASCII letters; every other character is left as it is.\<close>

definition lower_char :: "char \<Rightarrow> char" where
  "lower_char c =
     (case map_of (zip ''ABCDEFGHIJKLMNOPQRSTUVWXYZ'' ''abcdefghijklmnopqrstuvwxyz'') c of
        None \<Rightarrow> c | Some d \<Rightarrow> d)"

definition lower :: "string \<Rightarrow> string" where
  "lower s = map lower_char s"

text \<open>\<open>s.startswith(p)\<close>\<close>

definition startswith :: "string \<Rightarrow> string \<Rightarrow> bool" where
  "startswith s p = prefix p s"

text \<open>\<open>sub in s\<close>: \<open>sub\<close> occurs in \<open>s\<close> as a contiguous run.\<close>

fun py_in :: "string \<Rightarrow> string \<Rightarrow> bool" where
  "py_in sub [] = (sub = [])"
| "py_in sub (c # cs) = (prefix sub (c # cs) \<or> py_in sub cs)"

text \<open>\<open>s.split(sep)\<close> for a one-character separator.\<close>

fun split_on :: "char \<Rightarrow> string \<Rightarrow> string list" where
  "split_on sep [] = [[]]"
| "split_on sep (c # cs) =
     (if c = sep then [] # split_on sep cs
      else (case split_on sep cs of [] \<Rightarrow> [[c]] | w # ws \<Rightarrow> (c # w) # ws))"

text \<open>\<open>s.split(sep, 1)\<close>: split at the first separator only.\<close>

definition split_once :: "char \<Rightarrow> string \<Rightarrow> string list" where
  "split_once sep s =
     (let rest = dropWhile (\<lambda>c. c \<noteq> sep) s
      in if rest = [] then [s] else [takeWhile (\<lambda>c. c \<noteq> sep) s, tl rest])"

text \<open>\<open>sep.join(parts)\<close>\<close>

fun join :: "string \<Rightarrow> string list \<Rightarrow> string" where
  "join sep [] = []"
| "join sep [p] = p"
| "join sep (p # q # ps) = p @ sep @ join sep (q # ps)"

definition newline :: string where
  "newline = [CHR 0x0A]"

text \<open>
  \<open>Path(s).name\<close> of \<open>pathlib\<close> on a POSIX system: the last component of the path, where
  empty components and \<open>.\<close> components are dropped; the empty string when none is left.
\<close>

definition path_name :: "string \<Rightarrow> string" where
  "path_name s =
     (let parts = filter (\<lambda>p. p \<noteq> [] \<and> p \<noteq> ''.'') (split_on CHR ''/'' s)
      in if parts = [] then [] else last parts)"

text \<open>
  \<open>Path(s).suffix\<close>: with \<open>i = name.rfind('.')\<close>, the slice \<open>name[i:]\<close> when
  \<open>0 < i < len(name) - 1\<close>, the empty string otherwise.
\<close>

definition path_suffix :: "string \<Rightarrow> string" where
  "path_suffix s =
     (let name = path_name s;
          after = takeWhile (\<lambda>c. c \<noteq> CHR ''.'') (rev name)
      in if CHR ''.'' \<notin> set name then []
         else (let i = length name - length after - 1
               in if 0 < i \<and> i < length name - 1 then drop i name else []))"

section \<open>The external services and libraries\<close>

text \<open>An exception is represented by its message, the value of \<open>str(e)\<close>.\<close>

datatype py_exception = PyException string

type_synonym bytes = "8 word list"

text \<open>The result of \<open>urllib.parse.urlparse\<close>, as far as the service reads it.\<close>

record parsed_url =
  hostname :: "string option"
  path :: string

text \<open>A Textract block: \<open>BlockType\<close> and the optional \<open>Text\<close> key.\<close>

record block =
  BlockType :: string
  Text :: "string option"

text \<open>
  A response of \<open>get_document_text_detection\<close>. An absent \<open>Blocks\<close> key is the empty
  list (the code reads it with \<open>.get("Blocks", [])\<close>), an absent \<open>NextToken\<close> is \<open>None\<close>.
\<close>

record get_response =
  JobStatus :: string
  Blocks :: "block list"
  NextToken :: "string option"

text \<open>
  A cell value as \<open>openpyxl\<close> returns it with \<open>data_only=True\<close>: \<open>None\<close>, a string, an
  integer, a float, a boolean or a \<open>datetime\<close> (year, month, day, hour, minute, second).
\<close>

datatype cell =
    CNone
  | CStr string
  | CInt int
  | CFloat real
  | CBool bool
  | CDateTime nat nat nat nat nat nat

text \<open>A workbook: its sheets in order, each with its name and rows, and the active sheet's index.\<close>

record workbook =
  sheets :: "(string \<times> cell list list) list"
  active :: nat

text \<open>A value produced by \<open>json.loads\<close>; an object keeps its keys in insertion order.\<close>

datatype json =
    JNull
  | JBool bool
  | JInt int
  | JFloat real
  | JString string
  | JArray "json list"
  | JObject "(string \<times> json) list"

text \<open>
  Every call that leaves the process is recorded as an event, in the order the calls are made.
\<close>

datatype event =
    S3GetObject string string
  | HttpGet string
  | StartDocumentTextDetection string string
  | Sleep nat
  | GetDocumentTextDetection string "string option"
  | DetectDocumentText string string
  | ChatCompletion string string

text \<open>
  The environment of the service: the configured bucket, the remote services (storage,
  HTTP, Textract, OpenAI) and the libraries whose results the code consumes. A remote call
  either raises or answers. \<open>get_document_text_detection\<close> also receives the number of the
  poll attempt during which it is called, so that the job's status can change over time.
  \<open>pdfplumber_pages\<close> gives the text of each page (the empty string for a page without
  text), \<open>docx_paragraphs\<close> the text of each paragraph.
\<close>

record env =
  s3_bucket :: string
  s3_get_object :: "string \<Rightarrow> string \<Rightarrow> py_exception + bytes"
  http_get :: "string \<Rightarrow> py_exception + bytes"
  urlparse :: "string \<Rightarrow> py_exception + parsed_url"
  pdfplumber_pages :: "bytes \<Rightarrow> py_exception + string list"
  docx_paragraphs :: "bytes \<Rightarrow> py_exception + string list"
  load_workbook :: "bytes \<Rightarrow> py_exception + workbook"
  start_document_text_detection :: "string \<Rightarrow> string \<Rightarrow> py_exception + string"
  get_document_text_detection :: "string \<Rightarrow> string option \<Rightarrow> nat \<Rightarrow> py_exception + get_response"
  detect_document_text :: "string \<Rightarrow> string \<Rightarrow> py_exception + block list"
  chat_completions_create :: "string \<Rightarrow> string \<Rightarrow> py_exception + string option"
  json_loads :: "string \<Rightarrow> json option"
  float_repr :: "real \<Rightarrow> string"

section \<open>Helper methods\<close>

text \<open>\<open>_get_extension\<close>: the query string is removed, then the suffix is lower-cased.\<close>

definition get_extension :: "string \<Rightarrow> string" where
  "get_extension file_url =
     (let clean_url = takeWhile (\<lambda>c. c \<noteq> CHR ''?'') file_url
      in lower (path_suffix clean_url))"

text \<open>
  \<open>_parse_s3_key\<close>. In the second branch \<open>urlparse\<close> may raise, so the result is a sum.
\<close>

definition parse_s3_key :: "env \<Rightarrow> string \<Rightarrow> py_exception + string" where
  "parse_s3_key env file_url =
     (if startswith file_url ''s3://'' then
        (let parts = split_once CHR ''/'' (drop 5 file_url)
         in Inr (if length parts > 1 then parts ! 1 else []))
      else if py_in ''s3.amazonaws.com'' file_url then
        (case urlparse env file_url of
           Inl e \<Rightarrow> Inl e
         | Inr parsed \<Rightarrow> Inr (lstrip_slash (path parsed)))
      else Inr file_url)"

text \<open>A word in single quotes, as the messages of Python's exceptions print names.\<close>

definition quoted :: "string \<Rightarrow> string" where
  "quoted s = [CHR 0x27] @ s @ [CHR 0x27]"

definition no_hostname :: py_exception where
  "no_hostname =
     PyException (quoted ''NoneType'' @ '' object has no attribute '' @ quoted ''split'')"

text \<open>
  \<open>_download_file\<close>: the bytes or the exception raised, and the calls made.
  \<open>parsed.hostname.split(".")\<close> raises \<open>AttributeError\<close> when the URL has no host.
\<close>

definition download_file :: "env \<Rightarrow> string \<Rightarrow> (py_exception + bytes) \<times> event list" where
  "download_file env file_url =
     (if startswith file_url ''s3://'' then
        (case parse_s3_key env file_url of
           Inl e \<Rightarrow> (Inl e, [])
         | Inr s3_key \<Rightarrow>
             (s3_get_object env (s3_bucket env) s3_key, [S3GetObject (s3_bucket env) s3_key]))
      else if py_in ''s3.'' file_url \<and> py_in ''amazonaws.com'' file_url then
        (case urlparse env file_url of
           Inl e \<Rightarrow> (Inl e, [])
         | Inr parsed \<Rightarrow>
             (case hostname parsed of
                None \<Rightarrow> (Inl no_hostname, [])
              | Some h \<Rightarrow>
                  (let bucket = takeWhile (\<lambda>c. c \<noteq> CHR ''.'') h;
                       s3_key = lstrip_slash (path parsed)
                   in (s3_get_object env bucket s3_key, [S3GetObject bucket s3_key]))))
      else (http_get env file_url, [HttpGet file_url]))"

section \<open>Text extraction\<close>

text \<open>
  \<open>_extract_pdf_from_bytes\<close>: the pages that have text, joined by a blank line; \<open>None\<close>
  when \<open>pdfplumber\<close> raises.
\<close>

definition extract_pdf_from_bytes :: "env \<Rightarrow> bytes \<Rightarrow> string option" where
  "extract_pdf_from_bytes env content =
     (case pdfplumber_pages env content of
        Inl e \<Rightarrow> None
      | Inr pages \<Rightarrow> Some (join (newline @ newline) (filter (\<lambda>page_text. page_text \<noteq> []) pages)))"

text \<open>\<open>_extract_word_from_bytes\<close>: the paragraphs that are not blank, one per line.\<close>

definition extract_word_from_bytes :: "env \<Rightarrow> bytes \<Rightarrow> string option" where
  "extract_word_from_bytes env content =
     (case docx_paragraphs env content of
        Inl e \<Rightarrow> None
      | Inr paragraphs \<Rightarrow> Some (join newline (filter (\<lambda>p. strip p \<noteq> []) paragraphs)))"

text \<open>Decimal digits of a natural number, and zero padding on the left.\<close>

fun nat_str :: "nat \<Rightarrow> string" where
  "nat_str n =
     (if n < 10 then [''0123456789'' ! n]
      else nat_str (n div 10) @ [''0123456789'' ! (n mod 10)])"

declare nat_str.simps [simp del]

definition zero_pad :: "nat \<Rightarrow> string \<Rightarrow> string" where
  "zero_pad w s = replicate (w - length s) CHR ''0'' @ s"

text \<open>
  Truthiness of a cell value (\<open>if cell.value\<close>): \<open>None\<close>, the empty string, zero and
  \<open>False\<close> are false.
\<close>

fun cell_truthy :: "cell \<Rightarrow> bool" where
  "cell_truthy CNone = False"
| "cell_truthy (CStr s) = (s \<noteq> [])"
| "cell_truthy (CInt i) = (i \<noteq> 0)"
| "cell_truthy (CFloat r) = (r \<noteq> 0)"
| "cell_truthy (CBool b) = b"
| "cell_truthy (CDateTime y mo d h mi s) = True"

text \<open>\<open>val.strftime("%Y-%m-%d")\<close> of a date with the given year, month and day.\<close>

definition strftime_ymd :: "nat \<Rightarrow> nat \<Rightarrow> nat \<Rightarrow> string" where
  "strftime_ymd y mo d =
     zero_pad 4 (nat_str y) @ ''-'' @ zero_pad 2 (nat_str mo) @ ''-'' @ zero_pad 2 (nat_str d)"

text \<open>\<open>str(val)\<close> of a cell value; the text of a float is the library's.\<close>

fun py_str :: "env \<Rightarrow> cell \<Rightarrow> string" where
  "py_str env CNone = ''None''"
| "py_str env (CStr s) = s"
| "py_str env (CInt i) = (if i < 0 then ''-'' @ nat_str (nat (- i)) else nat_str (nat i))"
| "py_str env (CFloat r) = float_repr env r"
| "py_str env (CBool b) = (if b then ''True'' else ''False'')"
| "py_str env (CDateTime y mo d h mi s) =
     strftime_ymd y mo d @ '' '' @ zero_pad 2 (nat_str h) @ '':'' @ zero_pad 2 (nat_str mi)
       @ '':'' @ zero_pad 2 (nat_str s)"

text \<open>
  \<open>_extract_excel_from_bytes\<close>. Each sheet gives its marker line, then one line for every
  row in which some rendered cell is not empty.
\<close>

definition row_values :: "env \<Rightarrow> cell list \<Rightarrow> string list" where
  "row_values env row = map (\<lambda>c. if cell_truthy c then py_str env c else []) row"

definition sheet_lines :: "env \<Rightarrow> string \<times> cell list list \<Rightarrow> string list" where
  "sheet_lines env sh =
     (''=== Sheet: '' @ fst sh @ '' ==='')
       # map (join '' | '')
           (filter (\<lambda>vs. list_ex (\<lambda>v. v \<noteq> []) vs) (map (row_values env) (snd sh)))"

definition extract_excel_from_bytes :: "env \<Rightarrow> bytes \<Rightarrow> string option" where
  "extract_excel_from_bytes env content =
     (case load_workbook env content of
        Inl e \<Rightarrow> None
      | Inr wb \<Rightarrow> Some (join newline (concat (map (sheet_lines env) (sheets wb)))))"

text \<open>\<open>_extract_word\<close> and \<open>_extract_excel\<close>: download, then extract; any exception gives \<open>None\<close>.\<close>

definition extract_word :: "env \<Rightarrow> string \<Rightarrow> string option \<times> event list" where
  "extract_word env file_url =
     (case download_file env file_url of
        (Inl e, evs) \<Rightarrow> (None, evs)
      | (Inr content, evs) \<Rightarrow> (extract_word_from_bytes env content, evs))"

definition extract_excel :: "env \<Rightarrow> string \<Rightarrow> string option \<times> event list" where
  "extract_excel env file_url =
     (case download_file env file_url of
        (Inl e, evs) \<Rightarrow> (None, evs)
      | (Inr content, evs) \<Rightarrow> (extract_excel_from_bytes env content, evs))"

text \<open>
  \<open>_extract_image\<close>: one \<open>detect_document_text\<close> call on the configured bucket; a LINE
  block without \<open>Text\<close> counts as the empty string (\<open>block.get("Text", "")\<close>).
\<close>

definition extract_image :: "env \<Rightarrow> string \<Rightarrow> string option \<times> event list" where
  "extract_image env file_url =
     (case parse_s3_key env file_url of
        Inl e \<Rightarrow> (None, [])
      | Inr s3_key \<Rightarrow>
          (case detect_document_text env (s3_bucket env) s3_key of
             Inl e \<Rightarrow> (None, [DetectDocumentText (s3_bucket env) s3_key])
           | Inr blocks \<Rightarrow>
               (Some (join newline
                        (map (\<lambda>b. case Text b of None \<Rightarrow> [] | Some t \<Rightarrow> t)
                           (filter (\<lambda>b. BlockType b = ''LINE'') blocks))),
                [DetectDocumentText (s3_bucket env) s3_key])))"

section \<open>The asynchronous Textract job\<close>

text \<open>
  The pagination loop of \<open>_extract_pdf_with_textract\<close>: \<open>while next_token\<close> fetches the
  next page and extends \<open>all_blocks\<close>. The loop runs for as long as the service hands out
  non-empty tokens, so it is a partial function: \<open>None\<close> is a loop that never ends.
\<close>

definition token_truthy :: "string option \<Rightarrow> bool" where
  "token_truthy t = (case t of None \<Rightarrow> False | Some s \<Rightarrow> s \<noteq> [])"

partial_function (option) collect_pages ::
  "env \<Rightarrow> string \<Rightarrow> nat \<Rightarrow> string option \<Rightarrow> block list \<Rightarrow> event list
     \<Rightarrow> ((py_exception + block list) \<times> event list) option" where
  "collect_pages env job_id attempt next_token all_blocks evs =
     (if token_truthy next_token then
        (case get_document_text_detection env job_id next_token attempt of
           Inl e \<Rightarrow> Some (Inl e, evs @ [GetDocumentTextDetection job_id next_token])
         | Inr page_response \<Rightarrow>
             collect_pages env job_id attempt (NextToken page_response)
               (all_blocks @ Blocks page_response)
               (evs @ [GetDocumentTextDetection job_id next_token]))
      else Some (Inr all_blocks, evs))"

text \<open>
  \<open>[block["Text"] for block in all_blocks if block["BlockType"] == "LINE"]\<close>: reading a
  missing \<open>Text\<close> raises \<open>KeyError\<close>.
\<close>

fun line_texts :: "block list \<Rightarrow> py_exception + string list" where
  "line_texts [] = Inr []"
| "line_texts (b # bs) =
     (if BlockType b = ''LINE'' then
        (case Text b of
           None \<Rightarrow> Inl (PyException (quoted ''Text''))
         | Some t \<Rightarrow> (case line_texts bs of Inl e \<Rightarrow> Inl e | Inr ts \<Rightarrow> Inr (t # ts)))
      else line_texts bs)"

definition max_attempts :: nat where
  "max_attempts = 60"

text \<open>
  The polling loop \<open>for attempt in range(max_attempts)\<close>: sleep two seconds, ask for the
  status, return on SUCCEEDED (after collecting every page) and on FAILED, go on otherwise.
  After the last attempt the job has timed out and the result is \<open>None\<close>. Every exception
  is caught by the method's handler and gives \<open>None\<close> as well.
\<close>

function poll_loop ::
  "env \<Rightarrow> string \<Rightarrow> nat \<Rightarrow> event list \<Rightarrow> (string option \<times> event list) option" where
  "poll_loop env job_id attempt evs =
     (if attempt < max_attempts then
        (let evs1 = evs @ [Sleep 2, GetDocumentTextDetection job_id None]
         in case get_document_text_detection env job_id None attempt of
              Inl e \<Rightarrow> Some (None, evs1)
            | Inr get_response \<Rightarrow>
                if JobStatus get_response = ''SUCCEEDED'' then
                  (case collect_pages env job_id attempt (NextToken get_response)
                          (Blocks get_response) evs1 of
                     None \<Rightarrow> None
                   | Some (Inl e, evs2) \<Rightarrow> Some (None, evs2)
                   | Some (Inr all_blocks, evs2) \<Rightarrow>
                       (case line_texts all_blocks of
                          Inl e \<Rightarrow> Some (None, evs2)
                        | Inr lines \<Rightarrow> Some (Some (join newline lines), evs2)))
                else if JobStatus get_response = ''FAILED'' then Some (None, evs1)
                else poll_loop env job_id (Suc attempt) evs1)
      else Some (None, evs))"
  by pat_completeness auto
termination
  by (relation "measure (\<lambda>(env, job_id, attempt, evs). max_attempts - attempt)") auto

declare poll_loop.simps [simp del]

text \<open>
  \<open>_extract_pdf_with_textract\<close>: bucket and key are read from the parsed URL, one job is
  started, then the job is polled.
\<close>

definition extract_pdf_with_textract ::
  "env \<Rightarrow> string \<Rightarrow> (string option \<times> event list) option" where
  "extract_pdf_with_textract env file_url =
     (case urlparse env file_url of
        Inl e \<Rightarrow> Some (None, [])
      | Inr parsed \<Rightarrow>
          (case hostname parsed of
             None \<Rightarrow> Some (None, [])
           | Some h \<Rightarrow>
               (let bucket = takeWhile (\<lambda>c. c \<noteq> CHR ''.'') h;
                    s3_key = lstrip_slash (path parsed)
                in case start_document_text_detection env bucket s3_key of
                     Inl e \<Rightarrow> Some (None, [StartDocumentTextDetection bucket s3_key])
                   | Inr job_id \<Rightarrow>
                       poll_loop env job_id 0 [StartDocumentTextDetection bucket s3_key])))"

text \<open>
  \<open>_extract_pdf\<close>: the text of \<open>pdfplumber\<close> is kept when it is non-empty and its stripped
  length is greater than 500; otherwise Textract is asked. The events of the download come
  first.
\<close>

definition extract_pdf :: "env \<Rightarrow> string \<Rightarrow> (string option \<times> event list) option" where
  "extract_pdf env file_url =
     (case download_file env file_url of
        (Inl e, evs) \<Rightarrow> Some (None, evs)
      | (Inr content, evs) \<Rightarrow>
          (let text = extract_pdf_from_bytes env content
           in if (case text of None \<Rightarrow> False | Some t \<Rightarrow> t \<noteq> [] \<and> length (strip t) > 500)
              then Some (text, evs)
              else map_option (\<lambda>(r, evs2). (r, evs @ evs2))
                     (extract_pdf_with_textract env file_url)))"

section \<open>Parsing with the language model\<close>

text \<open>
  The two \<open>re.sub\<close> calls that clean the model's answer: a leading \<open>```json\<close> with the
  whitespace after it is removed, then a closing fence with the whitespace before it, where
  \<open>$\<close> matches at the end of the string and before a final newline.
\<close>

definition rstrip :: "string \<Rightarrow> string" where
  "rstrip s = rev (dropWhile isspace (rev s))"

definition strip_code_fence :: "string \<Rightarrow> string" where
  "strip_code_fence content =
     (let c1 = (if prefix ''```json'' content then dropWhile isspace (drop 7 content)
                else content)
      in if suffix ''```'' c1 then rstrip (take (length c1 - 3) c1)
         else if suffix (''```'' @ newline) c1 then rstrip (take (length c1 - 4) c1) @ newline
         else c1)"

text \<open>The prompts: fixed lines, then the first 15000 characters of the document text.\<close>

definition po_prompt_lines :: "string list" where
  \<open>po_prompt_lines =
    [''Analyze this Purchase Order document and extract structured data.'',
     ''Return a JSON object with these fields (use null for missing values):'',
     '''',
     ''{'',
     ''    "po_number": "string or null",'',
     ''    "vendor_name": "string or null", '',
     ''    "date": "YYYY-MM-DD or null",'',
     ''    "total_value": number or null,'',
     ''    "currency": "3-letter code like USD, EUR, KES or null",'',
     ''    "scope": "brief description of work scope or null",'',
     ''    "payment_terms": "e.g., Net 30, 50% advance or null",'',
     ''    "incoterms": "e.g., FOB, CIF, EXW or null",'',
     ''    "retention_percentage": number (0-100) or null,'',
     ''    "milestones": ['',
     ''        {'',
     ''            "title": "string",'',
     ''            "description": "string or null",'',
     ''            "expected_date": "YYYY-MM-DD or null",'',
     ''            "payment_percentage": number'',
     ''        }'',
     ''    ],'',
     ''    "boq_items": ['',
     ''        {'',
     ''            "item_number": "string",'',
     ''            "description": "string",'',
     ''            "unit": "string",'',
     ''            "quantity": number,'',
     ''            "unit_price": number,'',
     ''            "total_price": number'',
     ''        }'',
     ''    ],'',
     ''    "confidence": number between 0 and 1'',
     ''}'',
     '''',
     ''Document text:'']\<close>

definition invoice_prompt_lines :: "string list" where
  \<open>invoice_prompt_lines =
    [''Analyze this Invoice document and extract structured data.'',
     ''Return a JSON object with these fields (use null for missing values):'',
     '''',
     ''{'',
     ''    "invoice_number": "string or null",'',
     ''    "vendor_name": "string or null",'',
     ''    "date": "YYYY-MM-DD or null",'',
     ''    "due_date": "YYYY-MM-DD or null",'',
     ''    "total_amount": number or null,'',
     ''    "currency": "3-letter code or null",'',
     ''    "subtotal": number or null,'',
     ''    "tax_amount": number or null,'',
     ''    "line_items": ['',
     ''        {'',
     ''            "description": "string",'',
     ''            "quantity": number or null,'',
     ''            "unit_price": number or null,'',
     ''            "amount": number'',
     ''        }'',
     ''    ],'',
     ''    "confidence": number between 0 and 1'',
     ''}'',
     '''',
     ''Document text:'']\<close>

definition milestones_prompt_lines :: "string list" where
  \<open>milestones_prompt_lines =
    [''Extract payment milestones from this document.'',
     ''Return a JSON array of milestones:'',
     '''',
     ''['',
     ''    {'',
     ''        "title": "string",'',
     ''        "description": "string or null",'',
     ''        "expected_date": "YYYY-MM-DD or null",'',
     ''        "payment_percentage": number (should sum to 100)'',
     ''    }'',
     '']'',
     '''',
     ''Document text:'']\<close>

definition make_prompt :: "string list \<Rightarrow> string \<Rightarrow> string" where
  "make_prompt ls raw_text = join newline ls @ newline @ take 15000 raw_text @ newline"

definition assistant :: string where
  "assistant = ''You are a document extraction assistant. ''"

definition po_system :: string where
  "po_system = assistant @ ''Always respond with valid JSON only. No explanations or markdown.''"

definition invoice_system :: string where
  "invoice_system = assistant @ ''Always respond with valid JSON only.''"

definition milestones_system :: string where
  "milestones_system = assistant @ ''Always respond with valid JSON array only.''"

text \<open>
  One request to the model inside \<open>try\<close>: the answer parsed as JSON, or \<open>None\<close> when the
  call raises, the answer has no content, or the cleaned content is not JSON.
\<close>

definition ask_model :: "env \<Rightarrow> string \<Rightarrow> string \<Rightarrow> json option \<times> event list" where
  "ask_model env system_prompt prompt =
     (case chat_completions_create env system_prompt prompt of
        Inl e \<Rightarrow> None
      | Inr None \<Rightarrow> None
      | Inr (Some content) \<Rightarrow> json_loads env (strip_code_fence content),
      [ChatCompletion system_prompt prompt])"

text \<open>The dictionary \<open>_parse_po_with_gpt\<close> returns from its exception handler.\<close>

definition po_fallback :: json where
  "po_fallback =
     JObject [(''po_number'', JNull), (''vendor_name'', JNull), (''date'', JNull),
              (''total_value'', JNull), (''currency'', JNull), (''milestones'', JArray []),
              (''boq_items'', JArray []), (''confidence'', JFloat 0)]"

definition parse_po_with_gpt :: "env \<Rightarrow> string \<Rightarrow> json \<times> event list" where
  "parse_po_with_gpt env raw_text =
     (case ask_model env po_system (make_prompt po_prompt_lines raw_text) of
        (None, evs) \<Rightarrow> (po_fallback, evs)
      | (Some parsed, evs) \<Rightarrow> (parsed, evs))"

definition invoice_fallback :: json where
  "invoice_fallback =
     JObject [(''invoice_number'', JNull), (''vendor_name'', JNull), (''total_amount'', JNull),
              (''confidence'', JFloat 0)]"

definition parse_invoice_with_gpt :: "env \<Rightarrow> string \<Rightarrow> json \<times> event list" where
  "parse_invoice_with_gpt env raw_text =
     (case ask_model env invoice_system (make_prompt invoice_prompt_lines raw_text) of
        (None, evs) \<Rightarrow> (invoice_fallback, evs)
      | (Some parsed, evs) \<Rightarrow> (parsed, evs))"

text \<open>
  \<open>_parse_milestones_with_gpt\<close> is also called with a text that may be \<open>None\<close>; the
  prompt is built before the \<open>try\<close>, so slicing \<open>None\<close> raises \<open>TypeError\<close> to the caller.
\<close>

definition not_subscriptable :: py_exception where
  "not_subscriptable = PyException (quoted ''NoneType'' @ '' object is not subscriptable'')"

definition parse_milestones_with_gpt ::
  "env \<Rightarrow> string option \<Rightarrow> (py_exception + json) \<times> event list" where
  "parse_milestones_with_gpt env raw_text =
     (case raw_text of
        None \<Rightarrow> (Inl not_subscriptable, [])
      | Some t \<Rightarrow>
          (case ask_model env milestones_system (make_prompt milestones_prompt_lines t) of
             (None, evs) \<Rightarrow> (Inr (JArray []), evs)
           | (Some parsed, evs) \<Rightarrow> (Inr parsed, evs)))"

section \<open>Milestones from a spreadsheet\<close>

text \<open>
  The header test of one row: some cell, rendered and lower-cased, contains one of the
  three words.
\<close>

definition is_header_row :: "env \<Rightarrow> cell list \<Rightarrow> bool" where
  "is_header_row env row =
     list_ex (\<lambda>v. py_in ''milestone'' v \<or> py_in ''payment'' v \<or> py_in ''description'' v)
       (map (\<lambda>c. if cell_truthy c then lower (py_str env c) else []) row)"

text \<open>
  The search \<open>for row_idx, row in enumerate(...)\<close> with its \<open>break\<close>: the one-based number
  of the first header row.
\<close>

fun find_header_row :: "env \<Rightarrow> nat \<Rightarrow> cell list list \<Rightarrow> nat option" where
  "find_header_row env row_idx [] = None"
| "find_header_row env row_idx (row # rows) =
     (if is_header_row env row then Some (row_idx + 1)
      else find_header_row env (Suc row_idx) rows)"

text \<open>The dictionary \<open>milestone\<close> that is filled while the cells of one row are visited.\<close>

record milestone =
  title :: "string option"
  payment_percentage :: "real option"
  expected_date :: "string option"

definition empty_milestone :: milestone where
  "empty_milestone = \<lparr>title = None, payment_percentage = None, expected_date = None\<rparr>"

text \<open>\<open>milestone.get("title")\<close> as a condition: present and not empty.\<close>

definition has_title :: "milestone \<Rightarrow> bool" where
  "has_title m = (case title m of None \<Rightarrow> False | Some t \<Rightarrow> t \<noteq> [])"

definition set_percentage :: "milestone \<Rightarrow> real \<Rightarrow> milestone" where
  "set_percentage m v =
     (if payment_percentage m = None then m\<lparr>payment_percentage := Some v\<rparr> else m)"

text \<open>
  The body of \<open>for idx, val in enumerate(values)\<close>, one equation per type of value. A
  boolean is an \<open>int\<close> in Python, \<open>True\<close> being 1.
\<close>

fun classify_cell :: "milestone \<Rightarrow> cell \<Rightarrow> milestone" where
  "classify_cell m CNone = m"
| "classify_cell m (CStr s) =
     (if \<not> has_title m \<and> length s > 3 then m\<lparr>title := Some (strip s)\<rparr> else m)"
| "classify_cell m (CInt i) =
     (if 0 < i \<and> i \<le> 100 then set_percentage m (real_of_int i) else m)"
| "classify_cell m (CFloat r) =
     (if 0 < r \<and> r \<le> 100 then set_percentage m r else m)"
| "classify_cell m (CBool b) = (if b then set_percentage m 1 else m)"
| "classify_cell m (CDateTime y mo d h mi s) =
     (if expected_date m = None then m\<lparr>expected_date := Some (strftime_ymd y mo d)\<rparr> else m)"

text \<open>One data row: skipped when no value is true, emitted when title and percentage are set.\<close>

definition row_milestone :: "cell list \<Rightarrow> json option" where
  "row_milestone vals =
     (if \<not> list_ex cell_truthy vals then None
      else (let m = foldl classify_cell empty_milestone vals
            in case (title m, payment_percentage m) of
                 (Some t, Some p) \<Rightarrow>
                   if t \<noteq> [] \<and> p \<noteq> 0 then
                     Some (JObject [(''title'', JString t), (''description'', JNull),
                                    (''expected_date'',
                                       case expected_date m of None \<Rightarrow> JNull | Some d \<Rightarrow> JString d),
                                    (''payment_percentage'', JFloat p)])
                   else None
               | _ \<Rightarrow> None))"

text \<open>
  \<open>_extract_milestones_from_excel\<close>: the header is looked for in the first ten rows of the
  active sheet; without one the whole workbook's text goes to the model. Any exception gives
  the empty list.
\<close>

definition extract_milestones_from_excel :: "env \<Rightarrow> string \<Rightarrow> json \<times> event list" where
  "extract_milestones_from_excel env file_url =
     (case download_file env file_url of
        (Inl e, evs) \<Rightarrow> (JArray [], evs)
      | (Inr content, evs) \<Rightarrow>
          (case load_workbook env content of
             Inl e \<Rightarrow> (JArray [], evs)
           | Inr wb \<Rightarrow>
               if length (sheets wb) \<le> active wb then (JArray [], evs)
               else (let sheet = snd (sheets wb ! active wb)
                     in case find_header_row env 0 (take 10 sheet) of
                          None \<Rightarrow>
                            (case parse_milestones_with_gpt env
                                    (extract_excel_from_bytes env content) of
                               (Inl e, evs2) \<Rightarrow> (JArray [], evs @ evs2)
                             | (Inr milestones, evs2) \<Rightarrow> (milestones, evs @ evs2))
                        | Some header_row \<Rightarrow>
                            (JArray (List.map_filter row_milestone (drop header_row sheet)),
                             evs))))"

section \<open>The entry points\<close>

text \<open>The result dictionary: \<open>success\<close> with \<open>data\<close>, or failure with \<open>error\<close>.\<close>

datatype envelope = Success json | Failure string

definition could_not_extract :: string where
  "could_not_extract = ''Could not extract text from document''"

text \<open>\<open>obj[key] = value\<close>: only a dictionary accepts it, every other value raises \<open>TypeError\<close>.\<close>

fun set_item :: "json \<Rightarrow> string \<Rightarrow> json \<Rightarrow> py_exception + json" where
  "set_item (JObject kvs) k v = Inr (JObject (AList.update k v kvs))"
| "set_item (JArray xs) k v =
     Inl (PyException ''list indices must be integers or slices, not str'')"
| "set_item (JString s) k v =
     Inl (PyException (quoted ''str'' @ '' object does not support item assignment''))"
| "set_item (JInt i) k v =
     Inl (PyException (quoted ''int'' @ '' object does not support item assignment''))"
| "set_item (JFloat r) k v =
     Inl (PyException (quoted ''float'' @ '' object does not support item assignment''))"
| "set_item (JBool b) k v =
     Inl (PyException (quoted ''bool'' @ '' object does not support item assignment''))"
| "set_item JNull k v =
     Inl (PyException (quoted ''NoneType'' @ '' object does not support item assignment''))"

text \<open>
  \<open>parsed_data["raw_text"] = raw_text[:5000]\<close> followed by the success result; an
  exception is turned into a failure by the entry point's handler.
\<close>

definition attach_raw_text :: "json \<times> event list \<Rightarrow> string \<Rightarrow> envelope \<times> event list" where
  "attach_raw_text p raw_text =
     (case p of (parsed_data, evs) \<Rightarrow>
        (case set_item parsed_data ''raw_text'' (JString (take 5000 raw_text)) of
           Inl (PyException msg) \<Rightarrow> (Failure msg, evs)
         | Inr d \<Rightarrow> (Success d, evs)))"

text \<open>
  What \<open>extract_purchase_order\<close> and \<open>extract_invoice\<close> do once \<open>raw_text\<close> is there: the
  check \<open>if not raw_text\<close>, then the parser, then the raw text is attached.
\<close>

definition from_text ::
  "(string \<Rightarrow> json \<times> event list) \<Rightarrow> string option \<times> event list \<Rightarrow> envelope \<times> event list" where
  "from_text parse r =
     (case r of (raw_text, evs) \<Rightarrow>
        (case raw_text of
           None \<Rightarrow> (Failure could_not_extract, evs)
         | Some t \<Rightarrow>
             if t = [] then (Failure could_not_extract, evs)
             else (case attach_raw_text (parse t) t of (res, evs2) \<Rightarrow> (res, evs @ evs2))))"

definition extract_purchase_order :: "env \<Rightarrow> string \<Rightarrow> (envelope \<times> event list) option" where
  "extract_purchase_order env file_url =
     (let ext = get_extension file_url
      in if ext \<in> set [''.xlsx'', ''.xls''] then
           Some (from_text (parse_po_with_gpt env) (extract_excel env file_url))
         else if ext \<in> set [''.docx'', ''.doc''] then
           Some (from_text (parse_po_with_gpt env) (extract_word env file_url))
         else if ext = ''.pdf'' then
           map_option (from_text (parse_po_with_gpt env)) (extract_pdf env file_url)
         else if ext \<in> set [''.png'', ''.jpg'', ''.jpeg''] then
           Some (from_text (parse_po_with_gpt env) (extract_image env file_url))
         else Some (Failure (''Unsupported file type: '' @ ext), []))"

definition extract_invoice :: "env \<Rightarrow> string \<Rightarrow> (envelope \<times> event list) option" where
  "extract_invoice env file_url =
     (let ext = get_extension file_url
      in if ext \<in> set [''.xlsx'', ''.xls''] then
           Some (from_text (parse_invoice_with_gpt env) (extract_excel env file_url))
         else if ext \<in> set [''.docx'', ''.doc''] then
           Some (from_text (parse_invoice_with_gpt env) (extract_word env file_url))
         else if ext = ''.pdf'' then
           map_option (from_text (parse_invoice_with_gpt env)) (extract_pdf env file_url)
         else if ext \<in> set [''.png'', ''.jpg'', ''.jpeg''] then
           Some (from_text (parse_invoice_with_gpt env) (extract_image env file_url))
         else Some (Failure (''Unsupported file type: '' @ ext), []))"

text \<open>
  \<open>extract_milestones\<close>: a spreadsheet goes to the heuristic parser, a PDF's text to the
  model; the text is not checked and nothing is attached to the result.
\<close>

definition milestones_data :: "json \<Rightarrow> json" where
  "milestones_data milestones = JObject [(''milestones'', milestones)]"

definition extract_milestones :: "env \<Rightarrow> string \<Rightarrow> (envelope \<times> event list) option" where
  "extract_milestones env file_url =
     (let ext = get_extension file_url
      in if ext \<in> set [''.xlsx'', ''.xls''] then
           (case extract_milestones_from_excel env file_url of
              (milestones, evs) \<Rightarrow> Some (Success (milestones_data milestones), evs))
         else if ext = ''.pdf'' then
           (case extract_pdf env file_url of
              None \<Rightarrow> None
            | Some (raw_text, evs) \<Rightarrow>
                (case parse_milestones_with_gpt env raw_text of
                   (Inl (PyException msg), evs2) \<Rightarrow> Some (Failure msg, evs @ evs2)
                 | (Inr milestones, evs2) \<Rightarrow>
                     Some (Success (milestones_data milestones), evs @ evs2)))
         else Some (Failure (''Unsupported file type for milestones: '' @ ext), []))"

text \<open>\<open>extract_from_bytes\<close>: no download and no OCR; the parser is chosen by \<open>document_type\<close>.\<close>

definition extract_from_bytes ::
  "env \<Rightarrow> bytes \<Rightarrow> string \<Rightarrow> string \<Rightarrow> envelope \<times> event list" where
  "extract_from_bytes env content filename document_type =
     (let ext = lower (path_suffix filename)
      in case (if ext \<in> set [''.xlsx'', ''.xls''] then Some (extract_excel_from_bytes env content)
               else if ext \<in> set [''.docx'', ''.doc''] then
                 Some (extract_word_from_bytes env content)
               else if ext = ''.pdf'' then Some (extract_pdf_from_bytes env content)
               else None) of
           None \<Rightarrow> (Failure (''Unsupported file type: '' @ ext), [])
         | Some None \<Rightarrow> (Failure could_not_extract, [])
         | Some (Some raw_text) \<Rightarrow>
             if raw_text = [] then (Failure could_not_extract, [])
             else if document_type = ''purchase_order'' then
               attach_raw_text (parse_po_with_gpt env raw_text) raw_text
             else if document_type = ''invoice'' then
               attach_raw_text (parse_invoice_with_gpt env raw_text) raw_text
             else if document_type = ''milestone'' then
               (case parse_milestones_with_gpt env (Some raw_text) of
                  (Inl (PyException msg), evs) \<Rightarrow> (Failure msg, evs)
                | (Inr milestones, evs) \<Rightarrow>
                    attach_raw_text (milestones_data milestones, evs) raw_text)
             else (Failure (''Unknown document type: '' @ document_type), []))"

section \<open>Sample environments\<close>

text \<open>
  An environment in which every remote call raises and every library rejects its input; the
  concrete runs below change the fields they need.
\<close>

definition quiet_env :: env where
  "quiet_env =
     \<lparr>s3_bucket = ''infradyn-documents'',
      s3_get_object = (\<lambda>b k. Inl (PyException ''NoSuchKey'')),
      http_get = (\<lambda>u. Inl (PyException ''connection refused'')),
      urlparse = (\<lambda>u. Inr \<lparr>hostname = None, path = u\<rparr>),
      pdfplumber_pages = (\<lambda>c. Inl (PyException ''No /Root object'')),
      docx_paragraphs = (\<lambda>c. Inl (PyException ''File is not a zip file'')),
      load_workbook = (\<lambda>c. Inl (PyException ''File is not a zip file'')),
      start_document_text_detection = (\<lambda>b k. Inl (PyException ''InvalidS3ObjectException'')),
      get_document_text_detection = (\<lambda>j t n. Inl (PyException ''InvalidJobIdException'')),
      detect_document_text = (\<lambda>b k. Inl (PyException ''InvalidS3ObjectException'')),
      chat_completions_create = (\<lambda>s p. Inl (PyException ''Connection error.'')),
      json_loads = (\<lambda>s. None),
      float_repr = (\<lambda>r. ''0.0'')\<rparr>"

text \<open>The extensions for which \<open>extract_purchase_order\<close> has an extractor.\<close>

definition supported_extensions :: "string list" where
  "supported_extensions =
     [''.xlsx'', ''.xls'', ''.docx'', ''.doc'', ''.pdf'', ''.png'', ''.jpg'', ''.jpeg'']"

text \<open>A model that answers in prose instead of JSON.\<close>

definition prose_env :: env where
  "prose_env =
     quiet_env\<lparr>chat_completions_create :=
                  (\<lambda>s p. Inr (Some ''I could not find a purchase order in this text.''))\<rparr>"

text \<open>A PDF behind a plain HTTPS link.\<close>

definition pdf_url :: string where
  "pdf_url = ''https://files.example.com/po/scan.pdf''"

text \<open>
  The PDF has one page whose text is exactly 500 characters long; Textract refuses the job.
\<close>

definition pdf500_env :: env where
  "pdf500_env =
     quiet_env\<lparr>http_get := (\<lambda>u. Inr [0x25, 0x50, 0x44, 0x46]),
               pdfplumber_pages := (\<lambda>c. Inr [replicate 500 CHR ''a'']),
               urlparse := (\<lambda>u. Inr \<lparr>hostname = Some ''files.example.com'',
                                       path = ''/po/scan.pdf''\<rparr>)\<rparr>"

text \<open>
  The PDF has no text layer, the Textract job succeeds at the first poll without any block,
  and the model answers with the empty list.
\<close>

definition blank_scan_env :: env where
  "blank_scan_env =
     quiet_env\<lparr>http_get := (\<lambda>u. Inr [0x25, 0x50, 0x44, 0x46]),
               pdfplumber_pages := (\<lambda>c. Inr []),
               urlparse := (\<lambda>u. Inr \<lparr>hostname = Some ''files.example.com'',
                                       path = ''/po/scan.pdf''\<rparr>),
               start_document_text_detection := (\<lambda>b k. Inr ''job-1''),
               get_document_text_detection :=
                 (\<lambda>j t n. Inr \<lparr>JobStatus = ''SUCCEEDED'', Blocks = [], NextToken = None\<rparr>),
               chat_completions_create := (\<lambda>s p. Inr (Some ''[]'')),
               json_loads := (\<lambda>s. Some (JArray []))\<rparr>"

section \<open>Notions used to state the properties of the Textract job\<close>

text \<open>
  The pages that follow a token: while the token is true the service answers with a page,
  whose own token leads to the rest; the chain ends at the first token that is not true.
\<close>

inductive page_chain ::
  "env \<Rightarrow> string \<Rightarrow> nat \<Rightarrow> string option \<Rightarrow> get_response list \<Rightarrow> bool" where
  chain_end: "\<not> token_truthy tok \<Longrightarrow> page_chain env job_id attempt tok []"
| chain_page: "token_truthy tok \<Longrightarrow>
     get_document_text_detection env job_id tok attempt = Inr page \<Longrightarrow>
     page_chain env job_id attempt (NextToken page) pages \<Longrightarrow>
     page_chain env job_id attempt tok (page # pages)"

text \<open>The events of \<open>n\<close> polls: a sleep of two seconds before each request for the status.\<close>

definition poll_events :: "string \<Rightarrow> nat \<Rightarrow> event list" where
  "poll_events job_id n = concat (replicate n [Sleep 2, GetDocumentTextDetection job_id None])"

text \<open>A request for a further page of the job's result (one made with a token).\<close>

definition is_page_fetch :: "string \<Rightarrow> event \<Rightarrow> bool" where
  "is_page_fetch job_id e = (case e of GetDocumentTextDetection j (Some t) \<Rightarrow> j = job_id | _ \<Rightarrow> False)"

text \<open>The status poll of the given attempt answers with a status that is not terminal.\<close>

definition still_running :: "env \<Rightarrow> string \<Rightarrow> nat \<Rightarrow> bool" where
  "still_running env job_id attempt =
     (case get_document_text_detection env job_id None attempt of
        Inl e \<Rightarrow> False
      | Inr r \<Rightarrow> JobStatus r \<noteq> ''SUCCEEDED'' \<and> JobStatus r \<noteq> ''FAILED'')"

text \<open>The text of a block, empty when absent.\<close>

definition text_of :: "block \<Rightarrow> string" where
  "text_of b = (case Text b of None \<Rightarrow> [] | Some t \<Rightarrow> t)"



text \<open>Sample runs of a job: one that never finishes, one that succeeds at the third poll with two pages.\<close>

definition example_host :: parsed_url where
  "example_host = \<lparr>hostname = Some ''files.example.com'', path = ''/po/scan.pdf''\<rparr>"

definition running_env :: env where
  "running_env =
     quiet_env\<lparr>urlparse := (\<lambda>u. Inr example_host),
               start_document_text_detection := (\<lambda>b k. Inr ''job-1''),
               get_document_text_detection :=
                 (\<lambda>j t n. Inr \<lparr>JobStatus = ''IN_PROGRESS'', Blocks = [], NextToken = None\<rparr>)\<rparr>"

definition first_page :: get_response where
  "first_page =
     \<lparr>JobStatus = ''SUCCEEDED'',
      Blocks = [\<lparr>BlockType = ''PAGE'', Text = None\<rparr>,
                \<lparr>BlockType = ''LINE'', Text = Some ''PURCHASE ORDER 4411''\<rparr>,
                \<lparr>BlockType = ''WORD'', Text = Some ''PURCHASE''\<rparr>],
      NextToken = Some ''page-2''\<rparr>"

definition second_page :: get_response where
  "second_page =
     \<lparr>JobStatus = ''SUCCEEDED'',
      Blocks = [\<lparr>BlockType = ''LINE'', Text = Some ''Total: 100 USD''\<rparr>],
      NextToken = None\<rparr>"

definition two_page_env :: env where
  "two_page_env =
     quiet_env\<lparr>urlparse := (\<lambda>u. Inr example_host),
               start_document_text_detection := (\<lambda>b k. Inr ''job-1''),
               get_document_text_detection :=
                 (\<lambda>j t n. if t = None
                          then (if n < 2
                                then Inr \<lparr>JobStatus = ''IN_PROGRESS'', Blocks = [],
                                         NextToken = None\<rparr>
                                else Inr first_page)
                          else Inr second_page)\<rparr>"

section \<open>Sample documents\<close>

text \<open>
  A milestone schedule: a header row, then two data rows with a title, a percentage and a
  date each. It is the only sheet of a workbook behind a plain HTTPS link.
\<close>

definition schedule_sheet :: "cell list list" where
  "schedule_sheet =
     [[CStr ''Milestone Description'', CStr ''Payment %'', CNone],
      [CStr ''Mobilization'', CInt 10, CDateTime 2024 1 15 0 0 0],
      [CStr ''Final Delivery'', CInt 90, CDateTime 2024 12 1 0 0 0]]"

definition schedule_url :: string where
  "schedule_url = ''https://files.example.com/schedule.xlsx''"

definition schedule_env :: env where
  "schedule_env =
     quiet_env\<lparr>http_get := (\<lambda>u. Inr [0x50, 0x4B, 0x03, 0x04]),
               load_workbook := (\<lambda>c. Inr \<lparr>sheets = [(''Schedule'', schedule_sheet)], active = 0\<rparr>)\<rparr>"

text \<open>The two milestones of the schedule.\<close>

definition schedule_milestones :: json where
  "schedule_milestones =
     JArray [JObject [(''title'', JString ''Mobilization''), (''description'', JNull),
                      (''expected_date'', JString ''2024-01-15''),
                      (''payment_percentage'', JFloat 10)],
             JObject [(''title'', JString ''Final Delivery''), (''description'', JNull),
                      (''expected_date'', JString ''2024-12-01''),
                      (''payment_percentage'', JFloat 90)]]"

text \<open>The value under the key \<open>raw_text\<close> of a result, if it is a dictionary that has one.\<close>

definition raw_text_field :: "json \<Rightarrow> json option" where
  "raw_text_field d = (case d of JObject kvs \<Rightarrow> map_of kvs ''raw_text'' | _ \<Rightarrow> None)"


text \<open>
  The raw text of a locator: what the extractor chosen by the extension returns. The entry
  points with a locator make this choice, \<open>extract_from_bytes\<close> makes the second one.
\<close>

definition selected_text :: "env \<Rightarrow> string \<Rightarrow> (string option \<times> event list) option" where
  "selected_text env file_url =
     (let ext = get_extension file_url
      in if ext \<in> set [''.xlsx'', ''.xls''] then Some (extract_excel env file_url)
         else if ext \<in> set [''.docx'', ''.doc''] then Some (extract_word env file_url)
         else if ext = ''.pdf'' then extract_pdf env file_url
         else if ext \<in> set [''.png'', ''.jpg'', ''.jpeg''] then Some (extract_image env file_url)
         else None)"

definition selected_text_of_bytes :: "env \<Rightarrow> bytes \<Rightarrow> string \<Rightarrow> string option" where
  "selected_text_of_bytes env content filename =
     (let ext = lower (path_suffix filename)
      in if ext \<in> set [''.xlsx'', ''.xls''] then extract_excel_from_bytes env content
         else if ext \<in> set [''.docx'', ''.doc''] then extract_word_from_bytes env content
         else if ext = ''.pdf'' then extract_pdf_from_bytes env content
         else None)"

text \<open>
  A purchase order as a Word document with three paragraphs, one of them blank; the model
  answers with a JSON object.
\<close>

definition order_url :: string where
  "order_url = ''https://files.example.com/po/order.docx''"

definition order_text :: string where
  "order_text = ''PURCHASE ORDER 4411'' @ newline @ ''Vendor: Acme''"

definition order_env :: env where
  "order_env =
     quiet_env\<lparr>http_get := (\<lambda>u. Inr [0x50, 0x4B, 0x03, 0x04]),
               docx_paragraphs := (\<lambda>c. Inr [''PURCHASE ORDER 4411'', '' '', ''Vendor: Acme'']),
               chat_completions_create := (\<lambda>s p. Inr (Some ''{}'')),
               json_loads := (\<lambda>s. Some (JObject [(''confidence'', JFloat 1)]))\<rparr>"





section \<open>The reading of a data row\<close>














section \<open>Properties of the helper methods\<close>

lemma split_once_first:
  assumes "sep \<notin> set a"
  shows "split_once sep (a @ sep # b) = [a, b]"
proof -
  have t: "takeWhile (\<lambda>c. c \<noteq> sep) (a @ sep # b) = a"
    using assms by (induction a) auto
  have d: "dropWhile (\<lambda>c. c \<noteq> sep) (a @ sep # b) = sep # b"
    using assms by (induction a) auto
  show ?thesis by (simp add: split_once_def t d)
qed

lemma parse_s3_key_s3:
  "CHR ''/'' \<notin> set bucket \<Longrightarrow> parse_s3_key env (''s3://'' @ bucket @ ''/'' @ key) = Inr key"
  using split_once_first[of "CHR ''/''" bucket key]
  by (simp add: parse_s3_key_def startswith_def Let_def)

text \<open>
  C10. For a locator \<open>s3://bucket/key\<close>, \<open>_parse_s3_key\<close> yields the key alone,
  \<open>_download_file\<close> makes exactly one \<open>get_object\<close> call, on the configured bucket with that
  key, and \<open>_extract_image\<close> makes exactly one \<open>detect_document_text\<close> call, on the
  configured bucket with that key. The bucket written in the locator occurs in neither call.
\<close>

theorem s3_locator_reads_configured_bucket:
  assumes "CHR ''/'' \<notin> set bucket"
  shows "parse_s3_key env (''s3://'' @ bucket @ ''/'' @ key) = Inr key
       \<and> download_file env (''s3://'' @ bucket @ ''/'' @ key)
           = (s3_get_object env (s3_bucket env) key, [S3GetObject (s3_bucket env) key])
       \<and> snd (extract_image env (''s3://'' @ bucket @ ''/'' @ key))
           = [DetectDocumentText (s3_bucket env) key]"
proof -
  have k: "parse_s3_key env (''s3://'' @ bucket @ ''/'' @ key) = Inr key"
    using assms by (rule parse_s3_key_s3)
  have d: "download_file env (''s3://'' @ bucket @ ''/'' @ key)
           = (s3_get_object env (s3_bucket env) key, [S3GetObject (s3_bucket env) key])"
    unfolding download_file_def using k by (simp add: startswith_def)
  have i: "snd (extract_image env (''s3://'' @ bucket @ ''/'' @ key))
           = [DetectDocumentText (s3_bucket env) key]"
    unfolding extract_image_def using k by (simp split: sum.splits)
  from k d i show ?thesis by blast
qed

theorem s3_locator_reads_configured_bucket_witness:
  "CHR ''/'' \<notin> set ''vendor-uploads''
   \<and> parse_s3_key quiet_env ''s3://vendor-uploads/po/scan.png'' = Inr ''po/scan.png''
   \<and> download_file quiet_env ''s3://vendor-uploads/po/scan.png''
       = (Inl (PyException ''NoSuchKey''), [S3GetObject ''infradyn-documents'' ''po/scan.png''])
   \<and> snd (extract_image quiet_env ''s3://vendor-uploads/po/scan.png'')
       = [DetectDocumentText ''infradyn-documents'' ''po/scan.png'']"
  using s3_locator_reads_configured_bucket[of "''vendor-uploads''" quiet_env "''po/scan.png''"]
  by (simp add: quiet_env_def)

section \<open>Properties of the entry points\<close>

text \<open>
  C8. When the extension of the locator (query string removed, lower-cased) is none of the
  supported ones, \<open>extract_purchase_order\<close> returns the failure
  \<open>Unsupported file type: <ext>\<close> and has made no call at all: the list of events is empty.
  For the extension \<open>.txt\<close> the message is \<open>Unsupported file type: .txt\<close>.
\<close>

theorem unsupported_extension_fails_before_any_call:
  "(get_extension file_url \<notin> set supported_extensions \<longrightarrow>
      extract_purchase_order env file_url
        = Some (Failure (''Unsupported file type: '' @ get_extension file_url), []))
   \<and> (get_extension file_url = ''.txt'' \<longrightarrow>
      extract_purchase_order env file_url = Some (Failure ''Unsupported file type: .txt'', []))"
  by (simp add: extract_purchase_order_def supported_extensions_def Let_def)

lemma get_extension_readme:
  "get_extension ''https://files.example.com/notes/README.TXT?sig=a.pdf'' = ''.txt''"
  by (simp add: get_extension_def path_suffix_def path_name_def lower_def lower_char_def Let_def)

theorem unsupported_extension_witness:
  "get_extension ''https://files.example.com/notes/README.TXT?sig=a.pdf''
     \<notin> set supported_extensions
   \<and> get_extension ''https://files.example.com/notes/README.TXT?sig=a.pdf'' = ''.txt''
   \<and> extract_purchase_order quiet_env ''https://files.example.com/notes/README.TXT?sig=a.pdf''
        = Some (Failure ''Unsupported file type: .txt'', [])"
  using unsupported_extension_fails_before_any_call
          [of "''https://files.example.com/notes/README.TXT?sig=a.pdf''" quiet_env]
  by (simp add: get_extension_readme supported_extensions_def)

lemma get_extension_pdf_url: "get_extension pdf_url = ''.pdf''"
  by (simp add: pdf_url_def get_extension_def path_suffix_def path_name_def lower_def
        lower_char_def Let_def)

lemma download_pdf_url:
  "download_file env pdf_url = (http_get env pdf_url, [HttpGet pdf_url])"
  by (simp add: download_file_def pdf_url_def startswith_def)

section \<open>Properties of the PDF path\<close>

lemma collect_pages_done:
  "\<not> token_truthy tok \<Longrightarrow> collect_pages env job a tok bs evs = Some (Inr bs, evs)"
  by (subst collect_pages.simps) simp

lemma collect_pages_step:
  "token_truthy tok \<Longrightarrow> get_document_text_detection env job tok a = Inr r \<Longrightarrow>
   collect_pages env job a tok bs evs
     = collect_pages env job a (NextToken r) (bs @ Blocks r)
         (evs @ [GetDocumentTextDetection job tok])"
  by (subst collect_pages.simps) simp

text \<open>
  C3. When the request to the model raises, or the answer has no content, or the content is
  not JSON after the code fence has been removed, \<open>_parse_po_with_gpt\<close> returns the
  fallback dictionary: the five scalar fields it holds are null, \<open>milestones\<close> and
  \<open>boq_items\<close> are empty lists and \<open>confidence\<close> is 0.0. The function has no
  exceptional result.
\<close>

theorem malformed_po_response_gives_fallback:
  assumes "(\<exists>e. chat_completions_create env po_system (make_prompt po_prompt_lines raw_text) = Inl e)
         \<or> chat_completions_create env po_system (make_prompt po_prompt_lines raw_text) = Inr None
         \<or> (\<exists>content. chat_completions_create env po_system (make_prompt po_prompt_lines raw_text)
                          = Inr (Some content)
                       \<and> json_loads env (strip_code_fence content) = None)"
  shows "fst (parse_po_with_gpt env raw_text)
       = JObject [(''po_number'', JNull), (''vendor_name'', JNull), (''date'', JNull),
                  (''total_value'', JNull), (''currency'', JNull), (''milestones'', JArray []),
                  (''boq_items'', JArray []), (''confidence'', JFloat 0)]"
  using assms by (auto simp: parse_po_with_gpt_def ask_model_def po_fallback_def)

theorem malformed_po_response_witness:
  "chat_completions_create prose_env po_system (make_prompt po_prompt_lines ''PO 4411'')
     = Inr (Some ''I could not find a purchase order in this text.'')
   \<and> json_loads prose_env (strip_code_fence ''I could not find a purchase order in this text.'')
     = None
   \<and> fst (parse_po_with_gpt prose_env ''PO 4411'')
     = JObject [(''po_number'', JNull), (''vendor_name'', JNull), (''date'', JNull),
                (''total_value'', JNull), (''currency'', JNull), (''milestones'', JArray []),
                (''boq_items'', JArray []), (''confidence'', JFloat 0)]"
  using malformed_po_response_gives_fallback[of prose_env "''PO 4411''"]
  by (simp add: prose_env_def quiet_env_def)

lemma extract_pdf_keeps_long_text:
  assumes "download_file env file_url = (Inr content, evs)"
    and "extract_pdf_from_bytes env content = Some t"
    and "length (strip t) > 500"
  shows "extract_pdf env file_url = Some (Some t, evs)"
proof -
  have "t \<noteq> []" using assms(3) by (auto simp: strip_def)
  then show ?thesis using assms by (simp add: extract_pdf_def)
qed

lemma extract_pdf_short_text_asks_textract:
  assumes "download_file env file_url = (Inr content, evs)"
    and "extract_pdf_from_bytes env content = None
         \<or> (\<exists>t. extract_pdf_from_bytes env content = Some t \<and> length (strip t) \<le> 500)"
  shows "extract_pdf env file_url
       = map_option (\<lambda>(r, evs2). (r, evs @ evs2)) (extract_pdf_with_textract env file_url)"
  using assms by (auto simp: extract_pdf_def)

text \<open>
  C1. A PDF whose direct text has exactly 500 characters after stripping is not accepted:
  \<open>_extract_pdf\<close> starts a Textract job, and since the job cannot be started here the
  result is \<open>None\<close> instead of the text.
\<close>

theorem pdf_text_of_500_characters_goes_to_textract:
  "extract_pdf_from_bytes pdf500_env [0x25, 0x50, 0x44, 0x46] = Some (replicate 500 CHR ''a'')
   \<and> length (strip (replicate 500 CHR ''a'')) = 500
   \<and> extract_pdf pdf500_env pdf_url
       = Some (None, [HttpGet pdf_url, StartDocumentTextDetection ''files'' ''po/scan.pdf''])"
proof -
  have a: "extract_pdf_from_bytes pdf500_env [0x25, 0x50, 0x44, 0x46]
           = Some (replicate 500 CHR ''a'')"
    by (simp add: extract_pdf_from_bytes_def pdf500_env_def quiet_env_def)
  have b: "strip (replicate 500 CHR ''a'') = replicate 500 CHR ''a''"
    by (simp add: strip_def isspace_def whitespace_def)
  have c: "extract_pdf_with_textract pdf500_env pdf_url
           = Some (None, [StartDocumentTextDetection ''files'' ''po/scan.pdf''])"
    by (simp add: extract_pdf_with_textract_def pdf500_env_def quiet_env_def lstrip_slash_def)
  have d: "download_file pdf500_env pdf_url = (Inr [0x25, 0x50, 0x44, 0x46], [HttpGet pdf_url])"
    by (simp add: download_pdf_url) (simp add: pdf500_env_def quiet_env_def)
  have e: "extract_pdf pdf500_env pdf_url
           = Some (None, [HttpGet pdf_url, StartDocumentTextDetection ''files'' ''po/scan.pdf''])"
    unfolding extract_pdf_def by (simp add: a b c d)
  from a b e show ?thesis by simp
qed

lemma from_text_no_text:
  "raw = None \<or> raw = Some [] \<Longrightarrow> from_text parse (raw, evs) = (Failure could_not_extract, evs)"
  by (auto simp: from_text_def)

lemma extract_from_bytes_no_text:
  assumes "lower (path_suffix filename) \<in> set [''.docx'', ''.doc'']"
    and "extract_word_from_bytes env content = None \<or> extract_word_from_bytes env content = Some []"
  shows "extract_from_bytes env content filename document_type = (Failure could_not_extract, [])"
  using assms by (auto simp: extract_from_bytes_def Let_def)

text \<open>
  C2. \<open>extract_milestones\<close> does not check the text of a PDF. When the text is absent the
  failure carries the message of the \<open>TypeError\<close>, and when the text is empty the model
  is asked and the call succeeds with an empty list of milestones.
\<close>

theorem milestones_from_pdf_without_text:
  "extract_pdf quiet_env pdf_url = Some (None, [HttpGet pdf_url])
   \<and> extract_milestones quiet_env pdf_url
       = Some (Failure (quoted ''NoneType'' @ '' object is not subscriptable''), [HttpGet pdf_url])
   \<and> extract_pdf blank_scan_env pdf_url
       = Some (Some [], [HttpGet pdf_url, StartDocumentTextDetection ''files'' ''po/scan.pdf'',
                         Sleep 2, GetDocumentTextDetection ''job-1'' None])
   \<and> extract_milestones blank_scan_env pdf_url
       = Some (Success (JObject [(''milestones'', JArray [])]),
               [HttpGet pdf_url, StartDocumentTextDetection ''files'' ''po/scan.pdf'',
                Sleep 2, GetDocumentTextDetection ''job-1'' None,
                ChatCompletion milestones_system (make_prompt milestones_prompt_lines [])])"
proof -
  have a: "extract_pdf quiet_env pdf_url = Some (None, [HttpGet pdf_url])"
    by (simp add: extract_pdf_def download_pdf_url) (simp add: quiet_env_def)
  have b: "extract_milestones quiet_env pdf_url
       = Some (Failure (quoted ''NoneType'' @ '' object is not subscriptable''), [HttpGet pdf_url])"
    by (simp add: extract_milestones_def get_extension_pdf_url a parse_milestones_with_gpt_def
          not_subscriptable_def)
  have p: "poll_loop blank_scan_env ''job-1'' 0 [StartDocumentTextDetection ''files'' ''po/scan.pdf'']
           = Some (Some [], [StartDocumentTextDetection ''files'' ''po/scan.pdf'',
                             Sleep 2, GetDocumentTextDetection ''job-1'' None])"
    by (subst poll_loop.simps)
       (simp add: max_attempts_def blank_scan_env_def quiet_env_def collect_pages_done
          token_truthy_def)
  have t: "extract_pdf_with_textract blank_scan_env pdf_url
           = Some (Some [], [StartDocumentTextDetection ''files'' ''po/scan.pdf'',
                             Sleep 2, GetDocumentTextDetection ''job-1'' None])"
    unfolding extract_pdf_with_textract_def using p
    by (simp add: blank_scan_env_def quiet_env_def lstrip_slash_def)
  have d: "download_file blank_scan_env pdf_url = (Inr [0x25, 0x50, 0x44, 0x46], [HttpGet pdf_url])"
    by (simp add: download_pdf_url) (simp add: blank_scan_env_def quiet_env_def)
  have x: "extract_pdf_from_bytes blank_scan_env [0x25, 0x50, 0x44, 0x46] = Some []"
    by (simp add: extract_pdf_from_bytes_def blank_scan_env_def quiet_env_def)
  have c: "extract_pdf blank_scan_env pdf_url
       = Some (Some [], [HttpGet pdf_url, StartDocumentTextDetection ''files'' ''po/scan.pdf'',
                         Sleep 2, GetDocumentTextDetection ''job-1'' None])"
    unfolding extract_pdf_def by (simp add: d x t)
  have m: "parse_milestones_with_gpt blank_scan_env (Some [])
           = (Inr (JArray []),
              [ChatCompletion milestones_system (make_prompt milestones_prompt_lines [])])"
    by (simp add: parse_milestones_with_gpt_def ask_model_def blank_scan_env_def quiet_env_def)
  have e: "extract_milestones blank_scan_env pdf_url
       = Some (Success (JObject [(''milestones'', JArray [])]),
               [HttpGet pdf_url, StartDocumentTextDetection ''files'' ''po/scan.pdf'',
                Sleep 2, GetDocumentTextDetection ''job-1'' None,
                ChatCompletion milestones_system (make_prompt milestones_prompt_lines [])])"
    by (simp add: extract_milestones_def get_extension_pdf_url c m milestones_data_def)
  from a b c e show ?thesis by simp
qed

section \<open>Properties of the Textract job\<close>

lemma collect_pages_events:
  assumes run: "collect_pages env job a tok bs evs = Some y"
  shows "\<exists>pages. snd y = evs @ pages \<and> list_all (is_page_fetch job) pages"
proof (rule collect_pages.raw_induct
         [where P = "\<lambda>env job a tok bs evs y.
                       \<exists>pages. snd y = evs @ pages \<and> list_all (is_page_fetch job) pages",
          OF _ run], goal_cases)
  case (1 cp env job a tok bs evs y)
  show ?case
  proof (cases "token_truthy tok")
    case False
    with 1(2) show ?thesis by auto
  next
    case True
    then obtain t where t: "tok = Some t" by (auto simp: token_truthy_def split: option.splits)
    show ?thesis
    proof (cases "get_document_text_detection env job tok a")
      case (Inl e)
      with True 1(2) t show ?thesis by (auto simp: is_page_fetch_def)
    next
      case (Inr p)
      with True 1(2) have
        "cp env job a (NextToken p) (bs @ Blocks p) (evs @ [GetDocumentTextDetection job tok])
         = Some y" by simp
      from 1(1)[OF this] obtain pages where
        "snd y = (evs @ [GetDocumentTextDetection job tok]) @ pages"
        "list_all (is_page_fetch job) pages" by blast
      then have "snd y = evs @ (GetDocumentTextDetection job tok # pages)
                 \<and> list_all (is_page_fetch job) (GetDocumentTextDetection job tok # pages)"
        using t by (simp add: is_page_fetch_def)
      then show ?thesis by blast
    qed
  qed
qed

lemma collect_pages_chain:
  assumes "page_chain env job a tok pages"
  shows "\<exists>evs'. collect_pages env job a tok bs evs = Some (Inr (bs @ concat (map Blocks pages)), evs')"
  using assms
proof (induction arbitrary: bs evs rule: page_chain.induct)
  case (chain_end tok env job a)
  then show ?case by (simp add: collect_pages_done)
next
  case (chain_page tok env job a page pages)
  show ?case
    using chain_page.IH[of "bs @ Blocks page" "evs @ [GetDocumentTextDetection job tok]"]
    by (simp add: collect_pages_step[OF chain_page.hyps(1,2)])
qed

lemma line_texts_all:
  "\<forall>b\<in>set bs. BlockType b = ''LINE'' \<longrightarrow> Text b \<noteq> None \<Longrightarrow>
   line_texts bs = Inr (map text_of (filter (\<lambda>b. BlockType b = ''LINE'') bs))"
  by (induction bs) (auto simp: text_of_def)

lemma poll_loop_shape:
  "poll_loop env job attempt evs = Some (r, evs') \<Longrightarrow> k = max_attempts - attempt \<Longrightarrow>
   \<exists>n pages. evs' = evs @ poll_events job n @ pages \<and> n \<le> max_attempts - attempt
      \<and> list_all (is_page_fetch job) pages"
proof (induction k arbitrary: attempt evs)
  case 0
  then have "\<not> attempt < max_attempts" by simp
  with 0(1) have "evs' = evs" by (subst (asm) poll_loop.simps) simp
  then show ?case by (intro exI[of _ 0] exI[of _ "[]"]) (simp add: poll_events_def)
next
  case (Suc k)
  then have lt: "attempt < max_attempts" by simp
  let ?evs1 = "evs @ [Sleep 2, GetDocumentTextDetection job None]"
  have one: "?evs1 = evs @ poll_events job 1 @ []" by (simp add: poll_events_def)
  have le1: "1 \<le> max_attempts - attempt" using lt by simp
  show ?case
  proof (cases "get_document_text_detection env job None attempt")
    case (Inl e)
    with Suc.prems(1) lt have "evs' = ?evs1" by (subst (asm) poll_loop.simps) simp
    with one le1 show ?thesis by (metis list.pred_inject(1))
  next
    case (Inr resp)
    show ?thesis
    proof (cases "JobStatus resp = ''SUCCEEDED''")
      case True
      from Suc.prems(1) lt Inr True obtain cr evs2 where
        c: "collect_pages env job attempt (NextToken resp) (Blocks resp) ?evs1 = Some (cr, evs2)"
        and e: "evs' = evs2"
        by (subst (asm) poll_loop.simps) (auto split: option.splits sum.splits)
      from collect_pages_events[OF c] obtain pages where
        "evs2 = ?evs1 @ pages" "list_all (is_page_fetch job) pages" by auto
      with e have "evs' = evs @ poll_events job 1 @ pages" by (simp add: poll_events_def)
      with le1 \<open>list_all (is_page_fetch job) pages\<close> show ?thesis by blast
    next
      case False
      show ?thesis
      proof (cases "JobStatus resp = ''FAILED''")
        case True
        with Suc.prems(1) lt Inr False have "evs' = ?evs1"
          by (subst (asm) poll_loop.simps) simp
        with one le1 show ?thesis by (metis list.pred_inject(1))
      next
        case F2: False
        with Suc.prems(1) lt Inr False have
          "poll_loop env job (Suc attempt) ?evs1 = Some (r, evs')"
          by (subst (asm) poll_loop.simps) simp
        moreover have "k = max_attempts - Suc attempt" using Suc.prems(2) by simp
        ultimately obtain n pages where
          "evs' = ?evs1 @ poll_events job n @ pages" "n \<le> max_attempts - Suc attempt"
          "list_all (is_page_fetch job) pages"
          using Suc.IH by blast
        then have "evs' = evs @ poll_events job (Suc n) @ pages \<and> Suc n \<le> max_attempts - attempt
                   \<and> list_all (is_page_fetch job) pages"
          using lt by (simp add: poll_events_def)
        then show ?thesis by blast
      qed
    qed
  qed
qed

lemma poll_loop_timeout:
  "\<forall>i. attempt \<le> i \<and> i < max_attempts \<longrightarrow> still_running env job i \<Longrightarrow>
   k = max_attempts - attempt \<Longrightarrow>
   poll_loop env job attempt evs = Some (None, evs @ poll_events job (max_attempts - attempt))"
proof (induction k arbitrary: attempt evs)
  case 0
  then have "\<not> attempt < max_attempts" by simp
  then show ?case by (subst poll_loop.simps) (simp add: poll_events_def)
next
  case (Suc k)
  then have lt: "attempt < max_attempts" by simp
  with Suc.prems(1) have run: "still_running env job attempt" by simp
  have ih: "poll_loop env job (Suc attempt) (evs @ [Sleep 2, GetDocumentTextDetection job None])
            = Some (None, (evs @ [Sleep 2, GetDocumentTextDetection job None])
                            @ poll_events job (max_attempts - Suc attempt))"
    using Suc.prems by (intro Suc.IH) auto
  have s: "max_attempts - attempt = Suc (max_attempts - Suc attempt)" using lt by simp
  show ?case
    using run lt ih
    by (subst poll_loop.simps) (auto simp: still_running_def s poll_events_def split: sum.splits)
qed

lemma poll_loop_success:
  "\<forall>i. attempt \<le> i \<and> i < k \<longrightarrow> still_running env job i \<Longrightarrow>
   k < max_attempts \<Longrightarrow> attempt \<le> k \<Longrightarrow> d = k - attempt \<Longrightarrow>
   get_document_text_detection env job None k = Inr first \<Longrightarrow>
   JobStatus first = ''SUCCEEDED'' \<Longrightarrow>
   page_chain env job k (NextToken first) pages \<Longrightarrow>
   \<forall>b\<in>set (Blocks first @ concat (map Blocks pages)). BlockType b = ''LINE'' \<longrightarrow> Text b \<noteq> None \<Longrightarrow>
   \<exists>evs'. poll_loop env job attempt evs
     = Some (Some (join newline (map text_of (filter (\<lambda>b. BlockType b = ''LINE'')
                (Blocks first @ concat (map Blocks pages))))), evs')"
proof (induction d arbitrary: attempt evs)
  case 0
  then have a: "attempt = k" by simp
  from collect_pages_chain[OF 0(7)] obtain evs2 where
    c: "collect_pages env job k (NextToken first) (Blocks first)
          (evs @ [Sleep 2, GetDocumentTextDetection job None])
        = Some (Inr (Blocks first @ concat (map Blocks pages)), evs2)" by blast
  show ?case
    unfolding a using 0(2,5,6) c line_texts_all[OF 0(8)]
    by (subst poll_loop.simps) simp
next
  case (Suc d)
  then have lt: "attempt < k" by simp
  with Suc.prems(1) have run: "still_running env job attempt" by simp
  have "\<exists>evs'. poll_loop env job (Suc attempt) (evs @ [Sleep 2, GetDocumentTextDetection job None])
     = Some (Some (join newline (map text_of (filter (\<lambda>b. BlockType b = ''LINE'')
                (Blocks first @ concat (map Blocks pages))))), evs')"
    using Suc.prems lt by (intro Suc.IH) auto
  then show ?case
    using run lt Suc.prems(2)
    by (subst poll_loop.simps) (auto simp: still_running_def split: sum.splits)
qed

text \<open>
  C6. Every trace of \<open>_extract_pdf_with_textract\<close> is either empty or one job submission
  followed by at most 60 status polls, each preceded by a sleep of 2 seconds, followed only by
  requests for further pages of the result: the job is submitted once and never again. When
  the job is submitted and none of the 60 polls finds a terminal status, the result is
  \<open>None\<close> (no text) after exactly 60 polls.
\<close>

theorem textract_polling_budget:
  "(extract_pdf_with_textract env file_url = Some (res, evs) \<longrightarrow>
      evs = [] \<or>
      (\<exists>bucket key job_id n pages.
          evs = StartDocumentTextDetection bucket key # poll_events job_id n @ pages
          \<and> n \<le> 60 \<and> list_all (is_page_fetch job_id) pages))
   \<and> (urlparse env file_url = Inr parsed \<and> hostname parsed = Some h
        \<and> start_document_text_detection env (takeWhile (\<lambda>c. c \<noteq> CHR ''.'') h)
              (lstrip_slash (path parsed)) = Inr job
        \<and> (\<forall>i<60. still_running env job i) \<longrightarrow>
      extract_pdf_with_textract env file_url
        = Some (None, StartDocumentTextDetection (takeWhile (\<lambda>c. c \<noteq> CHR ''.'') h)
                        (lstrip_slash (path parsed)) # poll_events job 60))"
proof (intro conjI impI)
  assume run: "extract_pdf_with_textract env file_url = Some (res, evs)"
  show "evs = [] \<or>
      (\<exists>bucket key job_id n pages.
          evs = StartDocumentTextDetection bucket key # poll_events job_id n @ pages
          \<and> n \<le> 60 \<and> list_all (is_page_fetch job_id) pages)"
  proof (cases "urlparse env file_url")
    case (Inl e)
    with run show ?thesis by (simp add: extract_pdf_with_textract_def)
  next
    case (Inr p)
    show ?thesis
    proof (cases "hostname p")
      case None
      with run Inr show ?thesis by (simp add: extract_pdf_with_textract_def)
    next
      case (Some host)
      let ?b = "takeWhile (\<lambda>c. c \<noteq> CHR ''.'') host"
      let ?k = "lstrip_slash (path p)"
      show ?thesis
      proof (cases "start_document_text_detection env ?b ?k")
        case (Inl e)
        with run Inr Some have "evs = StartDocumentTextDetection ?b ?k # poll_events [] 0 @ []"
          by (simp add: extract_pdf_with_textract_def poll_events_def)
        then show ?thesis by (metis le0 list.pred_inject(1))
      next
        case job: (Inr j)
        with run Inr Some have
          "poll_loop env j 0 [StartDocumentTextDetection ?b ?k] = Some (res, evs)"
          by (simp add: extract_pdf_with_textract_def)
        from poll_loop_shape[OF this refl] obtain n pages where
          "evs = [StartDocumentTextDetection ?b ?k] @ poll_events j n @ pages"
          "n \<le> max_attempts - 0" "list_all (is_page_fetch j) pages" by blast
        then have "evs = StartDocumentTextDetection ?b ?k # poll_events j n @ pages
                   \<and> n \<le> 60 \<and> list_all (is_page_fetch j) pages"
          by (simp add: max_attempts_def)
        then show ?thesis by blast
      qed
    qed
  qed
next
  assume a: "urlparse env file_url = Inr parsed \<and> hostname parsed = Some h
        \<and> start_document_text_detection env (takeWhile (\<lambda>c. c \<noteq> CHR ''.'') h)
              (lstrip_slash (path parsed)) = Inr job
        \<and> (\<forall>i<60. still_running env job i)"
  then have "\<forall>i. 0 \<le> i \<and> i < max_attempts \<longrightarrow> still_running env job i"
    by (simp add: max_attempts_def)
  from poll_loop_timeout[OF this refl] a
  show "extract_pdf_with_textract env file_url
        = Some (None, StartDocumentTextDetection (takeWhile (\<lambda>c. c \<noteq> CHR ''.'') h)
                        (lstrip_slash (path parsed)) # poll_events job 60)"
    by (simp add: extract_pdf_with_textract_def max_attempts_def)
qed

lemma poll_events_length: "length (poll_events job n) = 2 * n"
  by (induction n) (simp_all add: poll_events_def)

theorem textract_polling_budget_witness:
  "list_all (still_running running_env ''job-1'') [0..<60]
   \<and> extract_pdf_with_textract running_env pdf_url
       = Some (None, StartDocumentTextDetection ''files'' ''po/scan.pdf''
                       # poll_events ''job-1'' 60)
   \<and> length (poll_events ''job-1'' 60) = 120"
proof -
  have h: "\<forall>i<60. still_running running_env ''job-1'' i"
    by (simp add: running_env_def quiet_env_def still_running_def)
  have r: "extract_pdf_with_textract running_env pdf_url
       = Some (None, StartDocumentTextDetection ''files'' ''po/scan.pdf''
                       # poll_events ''job-1'' 60)"
    using h textract_polling_budget
          [of running_env pdf_url None
              "StartDocumentTextDetection ''files'' ''po/scan.pdf'' # poll_events ''job-1'' 60"
              example_host "''files.example.com''" "''job-1''"]
    by (simp add: running_env_def quiet_env_def example_host_def lstrip_slash_def)
  from h have "list_all (still_running running_env ''job-1'') [0..<60]"
    by (simp add: list_all_iff)
  with r show ?thesis by (simp add: poll_events_length)
qed

text \<open>
  C7. When a poll within the budget finds SUCCEEDED and the continuation tokens lead through
  finitely many pages, the blocks of the first response and of every page are collected in
  order, and the text returned is the \<open>Text\<close> of the LINE blocks among them, joined by
  newlines; blocks of other types contribute nothing. (A LINE block always carries its
  \<open>Text\<close>.)
\<close>

theorem textract_success_returns_line_texts:
  assumes "urlparse env file_url = Inr parsed" and "hostname parsed = Some h"
    and "start_document_text_detection env (takeWhile (\<lambda>c. c \<noteq> CHR ''.'') h)
           (lstrip_slash (path parsed)) = Inr job"
    and "k < 60" and "\<forall>i<k. still_running env job i"
    and "get_document_text_detection env job None k = Inr first"
    and "JobStatus first = ''SUCCEEDED''"
    and "page_chain env job k (NextToken first) pages"
    and "\<forall>b\<in>set (Blocks first @ concat (map Blocks pages)).
           BlockType b = ''LINE'' \<longrightarrow> Text b \<noteq> None"
  shows "\<exists>evs. extract_pdf_with_textract env file_url
           = Some (Some (join newline (map text_of (filter (\<lambda>b. BlockType b = ''LINE'')
                                         (Blocks first @ concat (map Blocks pages))))), evs)"
proof -
  have "\<forall>i. 0 \<le> i \<and> i < k \<longrightarrow> still_running env job i" using assms(5) by simp
  moreover have "k < max_attempts" using assms(4) by (simp add: max_attempts_def)
  ultimately have "\<exists>evs'. poll_loop env job 0
        [StartDocumentTextDetection (takeWhile (\<lambda>c. c \<noteq> CHR ''.'') h)
           (lstrip_slash (path parsed))]
     = Some (Some (join newline (map text_of (filter (\<lambda>b. BlockType b = ''LINE'')
                (Blocks first @ concat (map Blocks pages))))), evs')"
    using assms(6-9) by (intro poll_loop_success[where k = k and d = k]) auto
  then show ?thesis using assms(1-3) by (simp add: extract_pdf_with_textract_def)
qed

lemma two_page_chain: "page_chain two_page_env ''job-1'' 2 (Some ''page-2'') [second_page]"
proof (rule chain_page)
  show "token_truthy (Some ''page-2'')" by (simp add: token_truthy_def)
  show "get_document_text_detection two_page_env ''job-1'' (Some ''page-2'') 2 = Inr second_page"
    by (simp add: two_page_env_def quiet_env_def)
  show "page_chain two_page_env ''job-1'' 2 (NextToken second_page) []"
    by (rule chain_end) (simp add: second_page_def token_truthy_def)
qed

theorem textract_success_witness:
  "page_chain two_page_env ''job-1'' 2 (NextToken first_page) [second_page]
   \<and> (\<exists>evs. extract_pdf_with_textract two_page_env pdf_url
              = Some (Some (''PURCHASE ORDER 4411'' @ newline @ ''Total: 100 USD''), evs))"
proof -
  have c: "page_chain two_page_env ''job-1'' 2 (NextToken first_page) [second_page]"
    using two_page_chain by (simp add: first_page_def)
  have r: "\<forall>i<2. still_running two_page_env ''job-1'' i"
    by (simp add: still_running_def two_page_env_def quiet_env_def)
  have g: "get_document_text_detection two_page_env ''job-1'' None 2 = Inr first_page"
    by (simp add: two_page_env_def quiet_env_def)
  have t: "\<forall>b\<in>set (Blocks first_page @ concat (map Blocks [second_page])).
             BlockType b = ''LINE'' \<longrightarrow> Text b \<noteq> None"
    by (simp add: first_page_def second_page_def)
  have "\<exists>evs. extract_pdf_with_textract two_page_env pdf_url
           = Some (Some (join newline (map text_of (filter (\<lambda>b. BlockType b = ''LINE'')
                      (Blocks first_page @ concat (map Blocks [second_page]))))), evs)"
    by (rule textract_success_returns_line_texts
              [where parsed = example_host and h = "''files.example.com''" and k = 2,
               OF _ _ _ _ r g _ c t])
       (simp_all add: two_page_env_def quiet_env_def example_host_def first_page_def)
  then show ?thesis using c by (simp add: first_page_def second_page_def text_of_def)
qed

section \<open>Properties of the results\<close>

lemma get_extension_schedule_url: "get_extension schedule_url = ''.xlsx''"
  by (simp add: schedule_url_def get_extension_def path_suffix_def path_name_def lower_def
        lower_char_def Let_def)

lemma download_schedule_url:
  "download_file env schedule_url = (http_get env schedule_url, [HttpGet schedule_url])"
  by (simp add: download_file_def schedule_url_def startswith_def)

lemma strftime_examples:
  "strftime_ymd 2024 (Suc 0) 15 = ''2024-01-15''" "strftime_ymd 2024 12 (Suc 0) = ''2024-12-01''"
  by (simp_all add: strftime_ymd_def zero_pad_def nat_str.simps)

lemma strip_examples:
  "strip ''Mobilization'' = ''Mobilization''" "strip ''Final Delivery'' = ''Final Delivery''"
  by (simp_all add: strip_def isspace_def whitespace_def)

lemma schedule_header: "find_header_row env 0 (take 10 schedule_sheet) = Some 1"
  by (simp add: schedule_sheet_def is_header_row_def lower_def lower_char_def)

lemma schedule_rows:
  "List.map_filter row_milestone (drop 1 schedule_sheet)
   = [JObject [(''title'', JString ''Mobilization''), (''description'', JNull),
                      (''expected_date'', JString ''2024-01-15''),
                      (''payment_percentage'', JFloat 10)],
             JObject [(''title'', JString ''Final Delivery''), (''description'', JNull),
                      (''expected_date'', JString ''2024-12-01''),
                      (''payment_percentage'', JFloat 90)]]"
  by (simp add: schedule_sheet_def List.map_filter_def row_milestone_def empty_milestone_def
        has_title_def set_percentage_def strftime_examples strip_examples)

lemma schedule_heuristic:
  "extract_milestones_from_excel schedule_env schedule_url
   = (schedule_milestones, [HttpGet schedule_url])"
proof -
  have d: "download_file schedule_env schedule_url
           = (Inr [0x50, 0x4B, 0x03, 0x04], [HttpGet schedule_url])"
    by (simp add: download_schedule_url) (simp add: schedule_env_def quiet_env_def)
  have w: "load_workbook schedule_env [0x50, 0x4B, 0x03, 0x04]
           = Inr \<lparr>sheets = [(''Schedule'', schedule_sheet)], active = 0\<rparr>"
    by (simp add: schedule_env_def quiet_env_def)
  show ?thesis
    unfolding extract_milestones_from_excel_def
    using schedule_rows by (simp add: d w schedule_header schedule_milestones_def)
qed

lemma attach_raw_text_success:
  assumes "attach_raw_text (parsed_data, e) raw = (Success d, evs)"
  shows "raw_text_field d = Some (JString (take 5000 raw))"
proof (cases parsed_data)
  case (JObject kvs)
  with assms have "d = JObject (AList.update ''raw_text'' (JString (take 5000 raw)) kvs)"
    by (simp add: attach_raw_text_def)
  then show ?thesis by (simp add: raw_text_field_def update_conv')
qed (use assms in \<open>simp_all add: attach_raw_text_def\<close>)

lemma from_text_success:
  assumes "from_text parse r = (Success d, evs)"
  shows "\<exists>raw evs0. r = (Some raw, evs0) \<and> raw_text_field d = Some (JString (take 5000 raw))"
proof -
  obtain raw_text evs0 where r: "r = (raw_text, evs0)" by (cases r)
  show ?thesis
  proof (cases raw_text)
    case None
    with assms r show ?thesis by (simp add: from_text_def)
  next
    case (Some t)
    obtain pd e where p: "parse t = (pd, e)" by (cases "parse t")
    obtain res evs2 where a: "attach_raw_text (pd, e) t = (res, evs2)"
      by (cases "attach_raw_text (pd, e) t")
    from assms r Some p a have "res = Success d"
      by (simp add: from_text_def split: if_splits)
    with a have "raw_text_field d = Some (JString (take 5000 t))"
      using attach_raw_text_success by blast
    with r Some show ?thesis by blast
  qed
qed

lemma url_entry_point_success:
  assumes "(let ext = get_extension file_url
      in if ext \<in> set [''.xlsx'', ''.xls''] then
           Some (from_text parse (extract_excel env file_url))
         else if ext \<in> set [''.docx'', ''.doc''] then
           Some (from_text parse (extract_word env file_url))
         else if ext = ''.pdf'' then
           map_option (from_text parse) (extract_pdf env file_url)
         else if ext \<in> set [''.png'', ''.jpg'', ''.jpeg''] then
           Some (from_text parse (extract_image env file_url))
         else Some (Failure (''Unsupported file type: '' @ ext), [])) = Some (Success d, evs)"
  shows "\<exists>raw evs1. selected_text env file_url = Some (Some raw, evs1)
           \<and> raw_text_field d = Some (JString (take 5000 raw))"
proof -
  from assms obtain r where s: "selected_text env file_url = Some r"
    and f: "from_text parse r = (Success d, evs)"
    by (auto simp: selected_text_def Let_def split: if_splits)
  from from_text_success[OF f] s show ?thesis by auto
qed

lemma attach_raw_text_pair:
  "attach_raw_text p raw = (Success d, evs) \<Longrightarrow>
   raw_text_field d = Some (JString (take 5000 raw))"
  by (cases p) (auto dest: attach_raw_text_success)

lemma extract_from_bytes_success:
  assumes "extract_from_bytes env content filename document_type = (Success d, evs)"
  shows "\<exists>raw. selected_text_of_bytes env content filename = Some raw
           \<and> raw_text_field d = Some (JString (take 5000 raw))"
  using assms
  unfolding extract_from_bytes_def selected_text_of_bytes_def Let_def
  by (auto split: if_splits option.splits sum.splits prod.splits py_exception.splits
           dest: attach_raw_text_pair)

lemma extract_milestones_success:
  assumes "extract_milestones env file_url = Some (Success d, evs)"
  shows "\<exists>milestones. d = JObject [(''milestones'', milestones)]"
  using assms
  unfolding extract_milestones_def Let_def milestones_data_def
  by (auto split: if_splits option.splits sum.splits prod.splits py_exception.splits)

text \<open>
  C9 (as amended). Every successful call of \<open>extract_purchase_order\<close>,
  \<open>extract_invoice\<close> and \<open>extract_from_bytes\<close> returns data whose \<open>raw_text\<close> is
  the first 5000 characters of the raw extracted text. A successful call of
  \<open>extract_milestones\<close> returns data that holds the key \<open>milestones\<close> and nothing
  else.
\<close>

theorem raw_text_attached_except_for_milestones:
  "(extract_purchase_order env file_url = Some (Success d, evs) \<longrightarrow>
      (\<exists>raw evs1. selected_text env file_url = Some (Some raw, evs1)
                   \<and> raw_text_field d = Some (JString (take 5000 raw))))
   \<and> (extract_invoice env file_url = Some (Success d, evs) \<longrightarrow>
      (\<exists>raw evs1. selected_text env file_url = Some (Some raw, evs1)
                   \<and> raw_text_field d = Some (JString (take 5000 raw))))
   \<and> (extract_from_bytes env content filename document_type = (Success d, evs) \<longrightarrow>
      (\<exists>raw. selected_text_of_bytes env content filename = Some raw
              \<and> raw_text_field d = Some (JString (take 5000 raw))))
   \<and> (extract_milestones env file_url = Some (Success d, evs) \<longrightarrow>
      (\<exists>milestones. d = JObject [(''milestones'', milestones)]))"
proof (intro conjI impI)
  assume "extract_purchase_order env file_url = Some (Success d, evs)"
  then show "\<exists>raw evs1. selected_text env file_url = Some (Some raw, evs1)
                   \<and> raw_text_field d = Some (JString (take 5000 raw))"
    unfolding extract_purchase_order_def by (rule url_entry_point_success)
next
  assume "extract_invoice env file_url = Some (Success d, evs)"
  then show "\<exists>raw evs1. selected_text env file_url = Some (Some raw, evs1)
                   \<and> raw_text_field d = Some (JString (take 5000 raw))"
    unfolding extract_invoice_def by (rule url_entry_point_success)
next
  assume "extract_from_bytes env content filename document_type = (Success d, evs)"
  then show "\<exists>raw. selected_text_of_bytes env content filename = Some raw
              \<and> raw_text_field d = Some (JString (take 5000 raw))"
    by (rule extract_from_bytes_success)
next
  assume "extract_milestones env file_url = Some (Success d, evs)"
  then show "\<exists>milestones. d = JObject [(''milestones'', milestones)]"
    by (rule extract_milestones_success)
qed

text \<open>
  C9 as stated fails for \<open>extract_milestones\<close>: the call on the sample schedule succeeds
  and its data has no \<open>raw_text\<close>.
\<close>

theorem milestones_result_has_no_raw_text:
  "extract_milestones schedule_env schedule_url
     = Some (Success (JObject [(''milestones'', schedule_milestones)]), [HttpGet schedule_url])
   \<and> raw_text_field (JObject [(''milestones'', schedule_milestones)]) = None"
  by (simp add: extract_milestones_def get_extension_schedule_url schedule_heuristic
        milestones_data_def raw_text_field_def)

lemma get_extension_order_url: "get_extension order_url = ''.docx''"
  by (simp add: order_url_def get_extension_def path_suffix_def path_name_def lower_def
        lower_char_def Let_def)

lemma order_word_text:
  "extract_word order_env order_url = (Some order_text, [HttpGet order_url])"
proof -
  have "download_file order_env order_url = (Inr [0x50, 0x4B, 0x03, 0x04], [HttpGet order_url])"
    by (simp add: download_file_def order_url_def startswith_def order_env_def quiet_env_def)
  then show ?thesis
    by (simp add: extract_word_def extract_word_from_bytes_def order_env_def quiet_env_def
          order_text_def strip_def isspace_def whitespace_def)
qed

lemma order_po:
  "extract_purchase_order order_env order_url
   = Some (Success (JObject [(''confidence'', JFloat 1), (''raw_text'', JString order_text)]),
           [HttpGet order_url, ChatCompletion po_system (make_prompt po_prompt_lines order_text)])"
proof -
  have t: "order_text \<noteq> []" "take 5000 order_text = order_text"
    by (simp_all add: order_text_def newline_def)
  have p: "parse_po_with_gpt order_env order_text
     = (JObject [(''confidence'', JFloat 1)],
        [ChatCompletion po_system (make_prompt po_prompt_lines order_text)])"
    by (simp add: parse_po_with_gpt_def ask_model_def order_env_def quiet_env_def)
  show ?thesis
    by (simp add: extract_purchase_order_def get_extension_order_url order_word_text
          from_text_def attach_raw_text_def p t)
qed

lemma order_invoice:
  "extract_invoice order_env order_url
   = Some (Success (JObject [(''confidence'', JFloat 1), (''raw_text'', JString order_text)]),
           [HttpGet order_url,
            ChatCompletion invoice_system (make_prompt invoice_prompt_lines order_text)])"
proof -
  have t: "order_text \<noteq> []" "take 5000 order_text = order_text"
    by (simp_all add: order_text_def newline_def)
  have p: "parse_invoice_with_gpt order_env order_text
     = (JObject [(''confidence'', JFloat 1)],
        [ChatCompletion invoice_system (make_prompt invoice_prompt_lines order_text)])"
    by (simp add: parse_invoice_with_gpt_def ask_model_def order_env_def quiet_env_def)
  show ?thesis
    by (simp add: extract_invoice_def get_extension_order_url order_word_text
          from_text_def attach_raw_text_def p t)
qed

lemma order_bytes_text:
  "selected_text_of_bytes order_env [0x50, 0x4B, 0x03, 0x04] ''order.docx'' = Some order_text"
  by (simp add: selected_text_of_bytes_def path_suffix_def path_name_def lower_def
        lower_char_def Let_def extract_word_from_bytes_def order_env_def quiet_env_def
        order_text_def strip_def isspace_def whitespace_def)

lemma order_bytes:
  "extract_from_bytes order_env [0x50, 0x4B, 0x03, 0x04] ''order.docx'' ''purchase_order''
   = (Success (JObject [(''confidence'', JFloat 1), (''raw_text'', JString order_text)]),
      [ChatCompletion po_system (make_prompt po_prompt_lines order_text)])"
proof -
  have t: "order_text \<noteq> []" "take 5000 order_text = order_text"
    by (simp_all add: order_text_def newline_def)
  have p: "parse_po_with_gpt order_env order_text
     = (JObject [(''confidence'', JFloat 1)],
        [ChatCompletion po_system (make_prompt po_prompt_lines order_text)])"
    by (simp add: parse_po_with_gpt_def ask_model_def order_env_def quiet_env_def)
  have w: "extract_word_from_bytes order_env [0x50, 0x4B, 0x03, 0x04] = Some order_text"
    by (simp add: extract_word_from_bytes_def order_env_def quiet_env_def
          order_text_def strip_def isspace_def whitespace_def)
  have x: "lower (path_suffix ''order.docx'') = ''.docx''"
    by (simp add: path_suffix_def path_name_def lower_def lower_char_def Let_def)
  show ?thesis
    by (simp add: extract_from_bytes_def x w attach_raw_text_def p t)
qed

theorem raw_text_attached_witness:
  "extract_purchase_order order_env order_url
     = Some (Success (JObject [(''confidence'', JFloat 1), (''raw_text'', JString order_text)]),
             [HttpGet order_url, ChatCompletion po_system (make_prompt po_prompt_lines order_text)])
   \<and> extract_invoice order_env order_url
     = Some (Success (JObject [(''confidence'', JFloat 1), (''raw_text'', JString order_text)]),
             [HttpGet order_url,
              ChatCompletion invoice_system (make_prompt invoice_prompt_lines order_text)])
   \<and> extract_from_bytes order_env [0x50, 0x4B, 0x03, 0x04] ''order.docx'' ''purchase_order''
     = (Success (JObject [(''confidence'', JFloat 1), (''raw_text'', JString order_text)]),
        [ChatCompletion po_system (make_prompt po_prompt_lines order_text)])
   \<and> extract_milestones schedule_env schedule_url
     = Some (Success (JObject [(''milestones'', schedule_milestones)]), [HttpGet schedule_url])
   \<and> selected_text order_env order_url = Some (Some order_text, [HttpGet order_url])
   \<and> selected_text_of_bytes order_env [0x50, 0x4B, 0x03, 0x04] ''order.docx'' = Some order_text
   \<and> raw_text_field (JObject [(''confidence'', JFloat 1), (''raw_text'', JString order_text)])
       = Some (JString (take 5000 order_text))"
proof -
  let ?d = "JObject [(''confidence'', JFloat 1), (''raw_text'', JString order_text)]"
  have s: "selected_text order_env order_url = Some (Some order_text, [HttpGet order_url])"
    by (simp add: selected_text_def get_extension_order_url order_word_text)
  have m: "extract_milestones schedule_env schedule_url
     = Some (Success (JObject [(''milestones'', schedule_milestones)]), [HttpGet schedule_url])"
    by (simp add: extract_milestones_def get_extension_schedule_url schedule_heuristic
          milestones_data_def)
  have r: "raw_text_field ?d = Some (JString (take 5000 order_text))"
    using raw_text_attached_except_for_milestones
         [of order_env order_url ?d
             "[HttpGet order_url, ChatCompletion po_system (make_prompt po_prompt_lines order_text)]"]
       order_po s
    by simp
  from order_po order_invoice order_bytes m s order_bytes_text r show ?thesis by simp
qed

section \<open>Properties of the spreadsheet text\<close>













section \<open>Properties of the milestone heuristic\<close>













lemma find_header_row_none:
  "\<forall>r\<in>set rows. \<not> is_header_row env r \<Longrightarrow> find_header_row env n rows = None"
  by (induction rows arbitrary: n) auto

lemma heuristic_abandoned_without_header:
  assumes "download_file env file_url = (Inr content, evs)"
    and "load_workbook env content = Inr wb"
    and "active wb < length (sheets wb)"
    and "\<forall>r\<in>set (take 10 (snd (sheets wb ! active wb))). \<not> is_header_row env r"
  shows "extract_milestones_from_excel env file_url
         = (case parse_milestones_with_gpt env (extract_excel_from_bytes env content) of
              (Inl e, evs2) \<Rightarrow> (JArray [], evs @ evs2)
            | (Inr milestones, evs2) \<Rightarrow> (milestones, evs @ evs2))"
  unfolding extract_milestones_from_excel_def
  using assms(1-3) find_header_row_none[OF assms(4), of 0] by (simp add: Let_def)







end
